theory Spec2Isabelle
  imports Complex_Main
begin

section \<open>Numbers\<close>

text \<open>
  The program computes with JavaScript numbers, the binary64 values of IEEE 754. Two
  models of them are used. Where every decision of the code is exact in binary64 and only
  the last bits of a returned value are rounded (the moving average, the median), a
  number is an exact real, extended with the three non-finite values that a division or
  an array read can produce: this is the type \<open>number\<close>. Where a computed value is compared
  with a threshold or rounded to an integer (variability and anomalies, trend,
  classification, score, correlations), every operation is rounded as binary64 rounds it:
  this is the type \<open>double\<close> of the next section. Session data are reals; the binary64
  code reads a real as the double nearest to it.
\<close>

datatype number = Fin real | PosInf | NegInf | NaN

definition inf_of_sign :: "real \<Rightarrow> number" where
  "inf_of_sign s = (if 0 < s then PosInf else if s < 0 then NegInf else NaN)"

fun jadd :: "number \<Rightarrow> number \<Rightarrow> number" where
  "jadd NaN _ = NaN"
| "jadd _ NaN = NaN"
| "jadd (Fin a) (Fin b) = Fin (a + b)"
| "jadd PosInf NegInf = NaN"
| "jadd NegInf PosInf = NaN"
| "jadd PosInf _ = PosInf"
| "jadd NegInf _ = NegInf"
| "jadd (Fin a) b = b"

fun jdiv :: "number \<Rightarrow> number \<Rightarrow> number" where
  "jdiv NaN _ = NaN"
| "jdiv _ NaN = NaN"
| "jdiv (Fin a) (Fin b) = (if b = 0 then inf_of_sign a else Fin (a / b))"
| "jdiv (Fin a) _ = Fin 0"
| "jdiv PosInf (Fin b) = (if 0 \<le> b then PosInf else NegInf)"
| "jdiv NegInf (Fin b) = (if 0 \<le> b then NegInf else PosInf)"
| "jdiv _ _ = NaN"

section \<open>Binary64 arithmetic\<close>

text \<open>
  Rounding to the nearest binary64 value, ties to the even significand. \<open>pow2 k\<close> is
  \<open>2^k\<close>; the exponent of a real is that of its binade, and \<open>-1022\<close> below the normal range;
  a value has 53 significant bits, so it is a multiple of \<open>2^(exponent - 52)\<close>.
\<close>

definition pow2 :: "int \<Rightarrow> real" where
  "pow2 k = (if 0 \<le> k then 2 ^ nat k else 1 / 2 ^ nat (- k))"

definition round_even :: "real \<Rightarrow> int" where
  "round_even x =
     (let f = \<lfloor>x\<rfloor>
      in if x - of_int f < 1 / 2 then f
         else if 1 / 2 < x - of_int f then f + 1
         else if even f then f else f + 1)"

definition exponent :: "real \<Rightarrow> int" where
  "exponent r = max (- 1022) \<lfloor>log 2 \<bar>r\<bar>\<rfloor>"

definition fl :: "real \<Rightarrow> real" where
  "fl r = (if r = 0 then 0
           else of_int (round_even (r / pow2 (exponent r - 52))) * pow2 (exponent r - 52))"

text \<open>
  The binary64 values: the finite ones by their real value (\<open>Finite 0\<close> is \<open>+0\<close>), the
  negative zero, the infinities and \<open>NaN\<close>. \<open>rnd\<close> is the result of an operation whose exact
  result is the real \<open>r\<close>: the nearest value, an infinity from \<open>2^1024\<close> on, and a zero with
  the sign of \<open>r\<close> when \<open>r\<close> underflows.
\<close>

datatype double = Finite real | MinusZero | PlusInfinity | MinusInfinity | NotANumber

definition rnd :: "real \<Rightarrow> double" where
  "rnd r =
     (let q = fl r
      in if pow2 1024 \<le> \<bar>q\<bar> then (if r < 0 then MinusInfinity else PlusInfinity)
         else if q = 0 \<and> r < 0 then MinusZero
         else Finite q)"

text \<open>A number of the session data, or a decimal literal of the code, as a double.\<close>

definition dbl :: "real \<Rightarrow> double" where
  "dbl v = rnd v"

text \<open>A value of the exact model, held as a double.\<close>

fun to_double :: "number \<Rightarrow> double" where
  "to_double (Fin v) = rnd v"
| "to_double PosInf = PlusInfinity"
| "to_double NegInf = MinusInfinity"
| "to_double NaN = NotANumber"

fun val_of :: "double \<Rightarrow> real" where
  "val_of (Finite v) = v"
| "val_of _ = 0"

fun is_neg :: "double \<Rightarrow> bool" where
  "is_neg (Finite v) = (v < 0)"
| "is_neg MinusZero = True"
| "is_neg MinusInfinity = True"
| "is_neg _ = False"

definition is_zero :: "double \<Rightarrow> bool" where
  "is_zero a = (a = Finite 0 \<or> a = MinusZero)"

definition is_inf :: "double \<Rightarrow> bool" where
  "is_inf a = (a = PlusInfinity \<or> a = MinusInfinity)"

definition signed_zero :: "bool \<Rightarrow> double" where
  "signed_zero neg = (if neg then MinusZero else Finite 0)"

definition signed_inf :: "bool \<Rightarrow> double" where
  "signed_inf neg = (if neg then MinusInfinity else PlusInfinity)"

text \<open>The operations \<open>-a\<close>, \<open>a + b\<close>, \<open>a - b\<close>, \<open>a * b\<close>, \<open>a / b\<close> and \<open>Math.sqrt(a)\<close>.\<close>

fun fneg :: "double \<Rightarrow> double" where
  "fneg (Finite v) = (if v = 0 then MinusZero else Finite (- v))"
| "fneg MinusZero = Finite 0"
| "fneg PlusInfinity = MinusInfinity"
| "fneg MinusInfinity = PlusInfinity"
| "fneg NotANumber = NotANumber"

definition fadd :: "double \<Rightarrow> double \<Rightarrow> double" where
  "fadd a b =
     (if a = NotANumber \<or> b = NotANumber then NotANumber
      else if is_inf a \<and> is_inf b then (if a = b then a else NotANumber)
      else if is_inf a then a
      else if is_inf b then b
      else if a = MinusZero \<and> b = MinusZero then MinusZero
      else rnd (val_of a + val_of b))"

definition fsub :: "double \<Rightarrow> double \<Rightarrow> double" where
  "fsub a b = fadd a (fneg b)"

definition fmul :: "double \<Rightarrow> double \<Rightarrow> double" where
  "fmul a b =
     (if a = NotANumber \<or> b = NotANumber then NotANumber
      else if (is_inf a \<and> is_zero b) \<or> (is_zero a \<and> is_inf b) then NotANumber
      else if is_inf a \<or> is_inf b then signed_inf (is_neg a \<noteq> is_neg b)
      else if is_zero a \<or> is_zero b then signed_zero (is_neg a \<noteq> is_neg b)
      else rnd (val_of a * val_of b))"

definition fdiv :: "double \<Rightarrow> double \<Rightarrow> double" where
  "fdiv a b =
     (if a = NotANumber \<or> b = NotANumber then NotANumber
      else if (is_inf a \<and> is_inf b) \<or> (is_zero a \<and> is_zero b) then NotANumber
      else if is_inf a \<or> is_zero b then signed_inf (is_neg a \<noteq> is_neg b)
      else if is_inf b \<or> is_zero a then signed_zero (is_neg a \<noteq> is_neg b)
      else rnd (val_of a / val_of b))"

fun fsqrt :: "double \<Rightarrow> double" where
  "fsqrt (Finite v) = (if v < 0 then NotANumber else rnd (sqrt v))"
| "fsqrt MinusZero = MinusZero"
| "fsqrt PlusInfinity = PlusInfinity"
| "fsqrt _ = NotANumber"

text \<open>
  \<open>Math.pow(a, 2)\<close> is the rounded square \<open>a * a\<close>, as the engines compute it for the
  exponent 2.
\<close>

definition fsquare :: "double \<Rightarrow> double" where
  "fsquare a = fmul a a"

text \<open>\<open>Math.abs(a)\<close>, \<open>a < b\<close>, \<open>a > b\<close>, \<open>Math.max(a, b)\<close>, \<open>Math.min(a, b)\<close> and \<open>Math.round(a)\<close>.\<close>

fun dabs :: "double \<Rightarrow> double" where
  "dabs (Finite v) = Finite \<bar>v\<bar>"
| "dabs MinusZero = Finite 0"
| "dabs PlusInfinity = PlusInfinity"
| "dabs MinusInfinity = PlusInfinity"
| "dabs NotANumber = NotANumber"

definition dlt :: "double \<Rightarrow> double \<Rightarrow> bool" where
  "dlt a b =
     (if a = NotANumber \<or> b = NotANumber then False
      else if a = PlusInfinity \<or> b = MinusInfinity then False
      else if a = MinusInfinity \<or> b = PlusInfinity then True
      else val_of a < val_of b)"

definition dgt :: "double \<Rightarrow> double \<Rightarrow> bool" where
  "dgt a b = dlt b a"

definition dmax :: "double \<Rightarrow> double \<Rightarrow> double" where
  "dmax a b =
     (if a = NotANumber \<or> b = NotANumber then NotANumber
      else if dlt a b then b
      else if dlt b a then a
      else if a = MinusZero then b else a)"

definition dmin :: "double \<Rightarrow> double \<Rightarrow> double" where
  "dmin a b =
     (if a = NotANumber \<or> b = NotANumber then NotANumber
      else if dlt a b then a
      else if dlt b a then b
      else if b = MinusZero then b else a)"

fun dround :: "double \<Rightarrow> double" where
  "dround (Finite v) =
     (if \<lfloor>v + 1 / 2\<rfloor> = 0 \<and> v < 0 then MinusZero else Finite (of_int \<lfloor>v + 1 / 2\<rfloor>))"
| "dround a = a"

text \<open>Truthiness of a number, and \<open>a || b\<close> on numbers.\<close>

definition truthy :: "double \<Rightarrow> bool" where
  "truthy a = (\<not> is_zero a \<and> a \<noteq> NotANumber)"

definition js_or :: "double \<Rightarrow> double \<Rightarrow> double" where
  "js_or a b = (if truthy a then a else b)"

section \<open>Arrays\<close>

text \<open>\<open>xs[i]\<close> in arithmetic: a read out of range is \<open>undefined\<close>, which is \<open>NaN\<close> as a number.\<close>

definition at_index :: "real list \<Rightarrow> int \<Rightarrow> number" where
  "at_index xs i = (if 0 \<le> i \<and> i < int (length xs) then Fin (xs ! nat i) else NaN)"

text \<open>\<open>xs.slice(start, end)\<close> and \<open>xs.slice(start)\<close>: a negative bound counts from the end.\<close>

definition relative_index :: "int \<Rightarrow> int \<Rightarrow> int" where
  "relative_index len k = (if k < 0 then max (len + k) 0 else min k len)"

definition slice :: "'a list \<Rightarrow> int \<Rightarrow> int \<Rightarrow> 'a list" where
  "slice xs start end' =
     (let len = int (length xs);
          k = relative_index len start;
          final = relative_index len end'
      in take (nat (final - k)) (drop (nat k) xs))"

definition slice_from :: "'a list \<Rightarrow> int \<Rightarrow> 'a list" where
  "slice_from xs start = slice xs start (int (length xs))"

text \<open>\<open>xs.reduce((sum, val) => sum + val, 0)\<close>.\<close>

definition reduce_sum :: "real list \<Rightarrow> real" where
  "reduce_sum xs = foldl (\<lambda>sum val. sum + val) 0 xs"

text \<open>The same sum in binary64: each addition is rounded.\<close>

definition reduce_sum_d :: "real list \<Rightarrow> double" where
  "reduce_sum_d xs = foldl (\<lambda>sum val. fadd sum (dbl val)) (Finite 0) xs"

section \<open>Signal processing\<close>

definition calculateMagnitude :: "real \<Rightarrow> real \<Rightarrow> real \<Rightarrow> real" where
  "calculateMagnitude x y z = sqrt (x * x + y * y + z * z)"

definition calculateTremorAmplitude :: "real list \<Rightarrow> real" where
  "calculateTremorAmplitude magnitude =
     (if length magnitude = 0 then 0
      else let mean = reduce_sum magnitude / real (length magnitude);
               deviations = map (\<lambda>val. \<bar>val - mean\<bar>) magnitude
           in reduce_sum deviations / real (length deviations))"

definition calculatePeakAmplitude :: "real list \<Rightarrow> real" where
  "calculatePeakAmplitude magnitude =
     (if length magnitude = 0 then 0
      else let mean = reduce_sum magnitude / real (length magnitude);
               deviations = map (\<lambda>val. \<bar>val - mean\<bar>) magnitude
           in foldl max (hd deviations) (tl deviations))"


text \<open>
  The variability and the anomalies are computed in binary64. The length of an array is a
  double without rounding.
\<close>

definition calculateVariability :: "real list \<Rightarrow> double" where
  "calculateVariability magnitude =
     (if length magnitude = 0 then Finite 0
      else let mean = fdiv (reduce_sum_d magnitude) (Finite (real (length magnitude)));
               variance =
                 fdiv (foldl (\<lambda>sum val. fadd sum (fsquare (fsub (dbl val) mean))) (Finite 0)
                         magnitude)
                      (Finite (real (length magnitude)))
           in fsqrt variance)"

definition detectAnomalies :: "real list \<Rightarrow> real \<Rightarrow> nat list" where
  "detectAnomalies magnitude threshold =
     (if length magnitude = 0 then []
      else let mean = fdiv (reduce_sum_d magnitude) (Finite (real (length magnitude)));
               stdDev = calculateVariability magnitude
           in filter (\<lambda>index. let val = dbl (magnitude ! index);
                                  zScore = dabs (fdiv (fsub val mean) stdDev)
                              in dgt zScore (dbl threshold))
                     [0..<length magnitude])"

section \<open>Sessions\<close>

record SensorData =
  axis_x :: "real list"
  axis_y :: "real list"
  axis_z :: "real list"

record RecordingContext =
  caffeine :: "bool option"
  sleepDeprived :: "bool option"
  stress :: "bool option"
  notes' :: "string option"

record RecordingStats =
  meanAmplitude :: real
  variability :: real
  peakAmplitude :: real

text \<open>Timestamps are milliseconds since the epoch, as \<open>Date.now()\<close> returns them.\<close>

record RecordingSession =
  session_id :: string
  timestamp :: int
  duration :: real
  accelerometer :: SensorData
  gyroscope :: SensorData
  magnitude :: "real list"
  stats :: RecordingStats
  session_context :: "RecordingContext option"

definition calculateMagnitudeArray :: "SensorData \<Rightarrow> real list" where
  "calculateMagnitudeArray data =
     (let length' = min (length (axis_x data)) (min (length (axis_y data)) (length (axis_z data)))
      in map (\<lambda>i. calculateMagnitude (axis_x data ! i) (axis_y data ! i) (axis_z data ! i))
             [0..<length'])"

text \<open>
  The statistics of a session are held as real numbers. The variability is the value of
  the double that \<open>calculateVariability\<close> computes; a deviation that is not finite has no
  value of its own in a session and reads as \<open>0\<close>. The mean and the peak amplitude are only
  displayed and are kept exact.
\<close>

definition calculateStats :: "real list \<Rightarrow> RecordingStats" where
  "calculateStats m =
     \<lparr> meanAmplitude = calculateTremorAmplitude m,
       variability = val_of (calculateVariability m),
       peakAmplitude = calculatePeakAmplitude m \<rparr>"

section \<open>Trend analysis\<close>

datatype trend = T_stable | T_increasing | T_decreasing

datatype stability = C_stable | C_variable | C_increasing | C_irregular

record StabilityClassification =
  type' :: stability
  confidence :: real

datatype impact_kind = Positive | Negative | Neutral

record Correlation =
  context' :: string
  impact :: impact_kind
  description :: string

record TrendAnalysis =
  stabilityScore :: double
  classification :: StabilityClassification
  summary :: string
  anomalies :: "string list"
  correlations :: "Correlation list"

datatype error = TypeError | StorageError

definition classifyStability :: "double \<Rightarrow> double \<Rightarrow> trend \<Rightarrow> StabilityClassification" where
  "classifyStability currentVariability baselineVariability trend =
     (let ratio = fdiv currentVariability (js_or baselineVariability (Finite 1))
      in if dlt ratio (dbl 1.1) \<and> trend = T_stable then \<lparr> type' = C_stable, confidence = 0.9 \<rparr>
         else if dgt ratio (dbl 1.5) \<or> trend = T_increasing
           then \<lparr> type' = C_increasing, confidence = 0.8 \<rparr>
         else if dgt ratio (dbl 1.2) then \<lparr> type' = C_variable, confidence = 0.7 \<rparr>
         else \<lparr> type' = C_irregular, confidence = 0.6 \<rparr>)"

text \<open>
  \<open>variabilities.sort((a, b) => a - b)\<close> on finite numbers is the ascending sort; the sort
  of an array is stable.
\<close>

definition calculateBaseline :: "RecordingSession list \<Rightarrow> number" where
  "calculateBaseline sessions =
     (if length sessions = 0 then Fin 0
      else let variabilities = map (\<lambda>s. variability (stats s)) sessions;
               sorted' = sort variabilities;
               medianIndex = int (length sorted') div 2
           in if length sorted' mod 2 = 0
              then jdiv (jadd (at_index sorted' (medianIndex - 1)) (at_index sorted' medianIndex))
                        (Fin 2)
              else at_index sorted' medianIndex)"

text \<open>
  The clock is an argument: \<open>now\<close> is the value of \<open>Date.now()\<close> during the call.
  \<open>sort((a, b) => a.timestamp - b.timestamp)\<close> is the stable sort by timestamp. The
  averages and their relative change are computed in binary64.
\<close>

definition detectTrend :: "int \<Rightarrow> RecordingSession list \<Rightarrow> int \<Rightarrow> trend" where
  "detectTrend now sessions days =
     (if length sessions < 3 then T_stable
      else let cutoff = now - days * 24 * 60 * 60 * 1000;
               recent = sort_key timestamp (filter (\<lambda>s. cutoff \<le> timestamp s) sessions)
           in if length recent < 3 then T_stable
              else let variabilities = map (\<lambda>s. variability (stats s)) recent;
                       firstHalf = slice variabilities 0 (int (length variabilities) div 2);
                       secondHalf = slice_from variabilities (int (length variabilities) div 2);
                       firstAvg = fdiv (reduce_sum_d firstHalf) (Finite (real (length firstHalf)));
                       secondAvg = fdiv (reduce_sum_d secondHalf)
                                        (Finite (real (length secondHalf)));
                       change = fdiv (fsub secondAvg firstAvg) firstAvg
                   in if dgt change (dbl 0.15) then T_increasing
                      else if dlt change (fneg (dbl 0.15)) then T_decreasing
                      else T_stable)"

text \<open>
  \<open>n.toFixed(0)\<close>: the nearest integer, the larger one at a tie, in decimal digits. From
  \<open>10^21\<close> on the result is the number's exponent notation, which is the argument \<open>big\<close>.
\<close>

fun digits :: "nat \<Rightarrow> string" where
  "digits n = (if n < 10 then [''0123456789'' ! n]
               else digits (n div 10) @ [''0123456789'' ! (n mod 10)])"

declare digits.simps [simp del]

fun toFixed0 :: "(real \<Rightarrow> string) \<Rightarrow> double \<Rightarrow> string" where
  "toFixed0 big NotANumber = ''NaN''"
| "toFixed0 big PlusInfinity = ''Infinity''"
| "toFixed0 big MinusInfinity = ''-Infinity''"
| "toFixed0 big MinusZero = ''0''"
| "toFixed0 big (Finite v) =
     (if v < 0 then ''-'' else []) @
     (if 10 ^ 21 \<le> \<bar>v\<bar> then big \<bar>v\<bar> else digits (nat \<lfloor>\<bar>v\<bar> + 1 / 2\<rfloor>))"

text \<open>\<open>s.context?.caffeine\<close> as a condition: the context is there and the flag is \<open>true\<close>.\<close>

definition flagged :: "(RecordingContext \<Rightarrow> bool option) \<Rightarrow> RecordingSession \<Rightarrow> bool" where
  "flagged flag s = (case session_context s of None \<Rightarrow> False | Some c \<Rightarrow> flag c = Some True)"

text \<open>The two correlation blocks of \<open>generateTrendAnalysis\<close>, each the entries it pushes.\<close>

definition caffeine_correlation :: "(real \<Rightarrow> string) \<Rightarrow> RecordingSession list \<Rightarrow> Correlation list"
  where
  "caffeine_correlation big sessions =
     (let caffeineSessions = filter (\<lambda>s. flagged caffeine s) sessions;
          noCaffeineSessions = filter (\<lambda>s. \<not> flagged caffeine s) sessions
      in if length caffeineSessions > 2 \<and> length noCaffeineSessions > 2
         then let caffeineAvg =
                    fdiv (reduce_sum_d (map (\<lambda>s. variability (stats s)) caffeineSessions))
                         (Finite (real (length caffeineSessions)));
                  noCaffeineAvg =
                    fdiv (reduce_sum_d (map (\<lambda>s. variability (stats s)) noCaffeineSessions))
                         (Finite (real (length noCaffeineSessions)));
                  diff = fdiv (fsub caffeineAvg noCaffeineAvg) noCaffeineAvg
              in if dgt (dabs diff) (dbl 0.1)
                 then [\<lparr> context' = ''Caffeine'',
                         impact = (if dgt diff (Finite 0) then Negative else Positive),
                         description = ''Sessions with caffeine show ''
                           @ toFixed0 big (dabs (fmul diff (Finite 100))) @ ''% ''
                           @ (if dgt diff (Finite 0) then ''higher'' else ''lower'')
                           @ '' variability.'' \<rparr>]
                 else []
         else [])"

definition stress_correlation :: "(real \<Rightarrow> string) \<Rightarrow> RecordingSession list \<Rightarrow> Correlation list"
  where
  "stress_correlation big sessions =
     (let stressSessions = filter (\<lambda>s. flagged stress s) sessions;
          noStressSessions = filter (\<lambda>s. \<not> flagged stress s) sessions
      in if length stressSessions > 2 \<and> length noStressSessions > 2
         then let stressAvg =
                    fdiv (reduce_sum_d (map (\<lambda>s. variability (stats s)) stressSessions))
                         (Finite (real (length stressSessions)));
                  noStressAvg =
                    fdiv (reduce_sum_d (map (\<lambda>s. variability (stats s)) noStressSessions))
                         (Finite (real (length noStressSessions)));
                  diff = fdiv (fsub stressAvg noStressAvg) noStressAvg
              in if dgt (dabs diff) (dbl 0.1)
                 then [\<lparr> context' = ''Stress'',
                         impact = (if dgt diff (Finite 0) then Negative else Positive),
                         description = ''Sessions marked as stressful show ''
                           @ toFixed0 big (dabs (fmul diff (Finite 100))) @ ''% ''
                           @ (if dgt diff (Finite 0) then ''higher'' else ''lower'')
                           @ '' variability.'' \<rparr>]
                 else []
         else [])"

text \<open>\<open>summaries.join(' ')\<close>.\<close>

fun join_space :: "string list \<Rightarrow> string" where
  "join_space [] = []"
| "join_space [a] = a"
| "join_space (a # b # rest) = a @ '' '' @ join_space (b # rest)"

text \<open>
  \<open>generateTrendAnalysis\<close>. Every \<open>Date.now()\<close> of one call reads the same value \<open>now\<close>.
  Reading \<open>latest.stats\<close> when \<open>recentSessions[0]\<close> is \<open>undefined\<close> throws a \<open>TypeError\<close>;
  the call of \<open>detectTrend\<close> before it throws nothing. \<open>big\<close> is passed on to \<open>toFixed0\<close>.
  The baseline is the median held as a double; ratio, score and the comparisons are
  computed in binary64.
\<close>

definition generateTrendAnalysis ::
  "(real \<Rightarrow> string) \<Rightarrow> int \<Rightarrow> RecordingSession list \<Rightarrow> error + TrendAnalysis" where
  "generateTrendAnalysis big now sessions =
     (if length sessions = 0
      then Inr \<lparr> stabilityScore = Finite 50,
                 classification = \<lparr> type' = C_stable, confidence = 0.5 \<rparr>,
                 summary = ''No data available yet. Start recording to see insights.'',
                 anomalies = [],
                 correlations = [] \<rparr>
      else
        let baseline = to_double (calculateBaseline sessions);
            recentSessions =
              sort_key (\<lambda>s. - timestamp s)
                (filter (\<lambda>s. now - 7 * 24 * 60 * 60 * 1000 \<le> timestamp s) sessions)
        in case recentSessions of
             [] \<Rightarrow> Inl TypeError
           | latest # _ \<Rightarrow>
               let trend = detectTrend now sessions 7;
                   classification' =
                     classifyStability (dbl (variability (stats latest))) baseline trend;
                   variabilityRatio =
                     fdiv (dbl (variability (stats latest))) (js_or baseline (Finite 1));
                   stabilityScore' =
                     dmax (Finite 0)
                       (dmin (Finite 100)
                          (fsub (Finite 100) (fmul (fsub variabilityRatio (Finite 1)) (Finite 50))));
                   anomalyIndices = detectAnomalies (magnitude latest) 2;
                   anomalies' =
                     (if dgt (Finite (real (length anomalyIndices)))
                             (fmul (Finite (real (length (magnitude latest)))) (dbl 0.1))
                      then [''Unusual motion patterns detected in recent recording'']
                      else []);
                   summaries =
                     [if trend = T_increasing
                      then ''Your motion variability has increased slightly over the past week.''
                      else if trend = T_decreasing
                      then ''Your motion variability has decreased, showing improved stability.''
                      else ''Your motion patterns have remained relatively stable.'']
                     @ (if length recentSessions > 0
                        then let avgVariability =
                                   fdiv (reduce_sum_d
                                           (map (\<lambda>s. variability (stats s)) recentSessions))
                                        (Finite (real (length recentSessions)))
                             in if dgt avgVariability (fmul baseline (dbl 1.2))
                                then [''Recent recordings show higher variability compared to your baseline.'']
                                else []
                        else []);
                   correlations' = caffeine_correlation big sessions @ stress_correlation big sessions
               in Inr \<lparr> stabilityScore = dround stabilityScore',
                          classification = classification',
                          summary = join_space summaries,
                          anomalies = anomalies',
                          correlations = correlations' \<rparr>)"

section \<open>Settings storage\<close>

text \<open>
  The values \<open>JSON.parse\<close> can return. The parser itself is an argument of the model: it
  maps a text to the value it denotes, or to \<open>None\<close> where \<open>JSON.parse\<close> throws.
\<close>

datatype json =
    JNull
  | JBool bool
  | JNumber real
  | JString string
  | JArray "json list"
  | JObject "(string \<times> json) list"

text \<open>An object at run time: its own properties, by name.\<close>

type_synonym js_object = "string \<rightharpoonup> json"

definition SETTINGS_KEY :: string where
  "SETTINGS_KEY = ''@tremorsense:settings''"

definition DEFAULT_SETTINGS :: js_object where
  "DEFAULT_SETTINGS =
     [''samplingRate'' \<mapsto> JString ''medium'',
      ''recordingDuration'' \<mapsto> JNumber 10,
      ''theme'' \<mapsto> JString ''dark'']"

text \<open>
  The own enumerable properties that a spread \<open>...v\<close> copies, in order: those of an object,
  the indexed elements of an array or of a string, none of any other value.
\<close>

fun own_properties :: "json \<Rightarrow> (string \<times> json) list" where
  "own_properties (JObject kvs) = kvs"
| "own_properties (JArray vs) = zip (map digits [0..<length vs]) vs"
| "own_properties (JString s) = zip (map digits [0..<length s]) (map (\<lambda>c. JString [c]) s)"
| "own_properties _ = []"

text \<open>\<open>{ ...target, ...source }\<close>: each property of the source is assigned in turn.\<close>

definition spread :: "js_object \<Rightarrow> json \<Rightarrow> js_object" where
  "spread target source = fold (\<lambda>(k, v) obj. obj(k \<mapsto> v)) (own_properties source) target"

text \<open>
  The state of the storage module: the availability flag and the in-memory fallback.
  \<open>getItem\<close> is \<open>AsyncStorage.getItem\<close>: it yields the stored text, \<open>None\<close> for \<open>null\<close>, or
  fails.
\<close>

record storage_state =
  isAsyncStorageAvailable :: bool
  memoryStorage :: "string \<rightharpoonup> string"

text \<open>\<open>memoryStorage[key] || null\<close>: a missing or empty text is \<open>null\<close>.\<close>

definition or_null :: "string option \<Rightarrow> string option" where
  "or_null v = (case v of None \<Rightarrow> None | Some s \<Rightarrow> if s = [] then None else Some s)"

definition loadSettings ::
  "(string \<Rightarrow> error + string option) \<Rightarrow> (string \<Rightarrow> json option) \<Rightarrow> storage_state
     \<Rightarrow> js_object \<times> storage_state" where
  "loadSettings getItem parse st =
     (let (data, st') =
            (if isAsyncStorageAvailable st
             then (case getItem SETTINGS_KEY of
                     Inr d \<Rightarrow> (d, st)
                   | Inl asyncError \<Rightarrow>
                       (or_null (memoryStorage st SETTINGS_KEY),
                        st\<lparr> isAsyncStorageAvailable := False \<rparr>))
             else (or_null (memoryStorage st SETTINGS_KEY), st))
      in case or_null data of
           None \<Rightarrow> (DEFAULT_SETTINGS, st')
         | Some text \<Rightarrow>
             (case parse text of
                None \<Rightarrow> (DEFAULT_SETTINGS, st')
              | Some settings \<Rightarrow> (spread DEFAULT_SETTINGS settings, st')))"

text \<open>The values the type \<open>AppSettings\<close> admits for a field.\<close>

definition recognized :: "string \<Rightarrow> json \<Rightarrow> bool" where
  "recognized field v =
     (if field = ''samplingRate'' then v \<in> set [JString ''low'', JString ''medium'', JString ''high'']
      else if field = ''recordingDuration'' then (case v of JNumber _ \<Rightarrow> True | _ \<Rightarrow> False)
      else if field = ''theme'' then v \<in> set [JString ''light'', JString ''dark'', JString ''auto'']
      else False)"

text \<open>
  The value of a field of the stored settings value, if the field is present (where a name
  occurs twice the last occurrence counts), and the text that a load reads.
\<close>

definition stored_field :: "json \<Rightarrow> string \<Rightarrow> json option" where
  "stored_field v field = map_of (rev (own_properties v)) field"

definition stored_text ::
  "(string \<Rightarrow> error + string option) \<Rightarrow> storage_state \<Rightarrow> string option" where
  "stored_text getItem st =
     (if isAsyncStorageAvailable st
      then (case getItem SETTINGS_KEY of
              Inr d \<Rightarrow> or_null d
            | Inl e \<Rightarrow> or_null (memoryStorage st SETTINGS_KEY))
      else or_null (memoryStorage st SETTINGS_KEY))"

text \<open>
  A store that holds a settings text; the settings text that consists of the one property
  \<open>theme\<close> with the string \<open>neon\<close>, in double quotes as JSON has them; and \<open>JSON.parse\<close>
  as far as this text needs it.
\<close>

definition store_holding :: "string \<Rightarrow> string \<Rightarrow> error + string option" where
  "store_holding text key = Inr (Some text)"

definition neon_text :: string where
  "neon_text = ''{'' @ [CHR 0x22] @ ''theme'' @ [CHR 0x22] @ '':''
                 @ [CHR 0x22] @ ''neon'' @ [CHR 0x22] @ ''}''"

definition neon_parse :: "string \<Rightarrow> json option" where
  "neon_parse text =
     (if text = neon_text then Some (JObject [(''theme'', JString ''neon'')]) else None)"

definition fresh_storage :: storage_state where
  "fresh_storage = \<lparr> isAsyncStorageAvailable = True, memoryStorage = Map.empty \<rparr>"

section \<open>Recording\<close>

record Vec3 =
  vx :: real
  vy :: real
  vz :: real

record SensorReading =
  reading_accelerometer :: Vec3
  reading_gyroscope :: Vec3
  reading_timestamp :: int

text \<open>
  The state of the hooks \<open>useRecording\<close> and \<open>useSensors\<close>: the state variables and the
  refs. \<open>rendered_enabled\<close> is the value of \<open>enabled\<close> that the last committed render passed
  to \<open>useSensors\<close>, which is \<open>isRecording\<close> as of that render.
\<close>

record hook_state =
  isRecording :: bool
  progress :: real
  error_text :: "string option"
  readingsRef :: "SensorReading list"
  readings :: "SensorReading list"
  startTimeRef :: "int option"
  progressIntervalRef :: "nat option"
  rendered_enabled :: bool

definition clearReadings :: "hook_state \<Rightarrow> hook_state" where
  "clearReadings st = st\<lparr> readingsRef := [], readings := [] \<rparr>"

definition getReadings :: "hook_state \<Rightarrow> SensorReading list" where
  "getReadings st = readingsRef st"

text \<open>The digits of \<open>Date.now()\<close> in a template string.\<close>

definition show_int :: "int \<Rightarrow> string" where
  "show_int i = (if i < 0 then ''-'' @ digits (nat (- i)) else digits (nat i))"

text \<open>
  \<open>stopRecording\<close>. \<open>saveSession\<close> is an argument: it returns or throws. \<open>now\<close> is the clock
  and \<open>random\<close> the suffix \<open>Math.random().toString(36).substr(2, 9)\<close>; \<open>duration'\<close> and
  \<open>context''\<close> are the arguments of the hook. The result is the returned session, \<open>None\<close>
  for \<open>null\<close>, and the state after the call.
\<close>

definition stopRecording ::
  "(RecordingSession \<Rightarrow> error + unit) \<Rightarrow> int \<Rightarrow> string \<Rightarrow> real \<Rightarrow> RecordingContext option
     \<Rightarrow> hook_state \<Rightarrow> RecordingSession option \<times> hook_state" where
  "stopRecording saveSession now random duration' context'' st =
     (let st1 = st\<lparr> isRecording := False, progress := 0 \<rparr>;
          st2 = (if progressIntervalRef st1 \<noteq> None then st1\<lparr> progressIntervalRef := None \<rparr>
                 else st1);
          allReadings = getReadings st2
      in if length allReadings = 0
         then (None, st2\<lparr> error_text := Some ''No data collected'' \<rparr>)
         else
           let accelerometer' =
                 \<lparr> axis_x = map (\<lambda>r. vx (reading_accelerometer r)) allReadings,
                   axis_y = map (\<lambda>r. vy (reading_accelerometer r)) allReadings,
                   axis_z = map (\<lambda>r. vz (reading_accelerometer r)) allReadings \<rparr>;
               gyroscope' =
                 \<lparr> axis_x = map (\<lambda>r. vx (reading_gyroscope r)) allReadings,
                   axis_y = map (\<lambda>r. vy (reading_gyroscope r)) allReadings,
                   axis_z = map (\<lambda>r. vz (reading_gyroscope r)) allReadings \<rparr>;
               magnitude' = calculateMagnitudeArray accelerometer';
               stats' = calculateStats magnitude';
               session =
                 \<lparr> session_id = ''session_'' @ show_int now @ ''_'' @ random,
                   timestamp = (case startTimeRef st2 of
                                  None \<Rightarrow> now
                                | Some t \<Rightarrow> if t = 0 then now else t),
                   duration = duration',
                   accelerometer = accelerometer',
                   gyroscope = gyroscope',
                   magnitude = magnitude',
                   stats = stats',
                   session_context = context'' \<rparr>
           in case saveSession session of
                Inr _ \<Rightarrow> (Some session, (clearReadings st2)\<lparr> startTimeRef := None \<rparr>)
              | Inl err \<Rightarrow> (None, st2\<lparr> error_text := Some ''Failed to save session'' \<rparr>))"

text \<open>
  The effect of \<open>useSensors\<close> that depends on \<open>enabled\<close>, as far as it writes the state at
  once: when the hook is disabled it empties the buffer. (When enabled it subscribes to
  the sensors and starts the collection timer.)
\<close>

definition useSensors_effect :: "bool \<Rightarrow> hook_state \<Rightarrow> hook_state" where
  "useSensors_effect enabled st =
     (if \<not> enabled then st\<lparr> readingsRef := [], readings := [] \<rparr> else st)"

text \<open>
  The render that follows a state update: \<open>useRecording\<close> calls \<open>useSensors\<close> with
  \<open>isRecording\<close> for \<open>enabled\<close>, and the effect runs when this dependency has changed since
  the last commit.
\<close>

definition commit :: "hook_state \<Rightarrow> hook_state" where
  "commit st =
     (if rendered_enabled st \<noteq> isRecording st
      then (useSensors_effect (isRecording st) st)\<lparr> rendered_enabled := isRecording st \<rparr>
      else st)"

text \<open>A recording in progress with one reading in the buffer, and a save that throws.\<close>

definition sample_reading :: SensorReading where
  "sample_reading =
     \<lparr> reading_accelerometer = \<lparr> vx = 0, vy = 0, vz = 1 \<rparr>,
       reading_gyroscope = \<lparr> vx = 0, vy = 0, vz = 0 \<rparr>,
       reading_timestamp = 1700000005000 \<rparr>"

definition recording_in_progress :: hook_state where
  "recording_in_progress =
     \<lparr> isRecording = True, progress = 50, error_text = None,
       readingsRef = [sample_reading], readings = [sample_reading],
       startTimeRef = Some 1700000000000, progressIntervalRef = Some 1,
       rendered_enabled = True \<rparr>"

definition failing_save :: "RecordingSession \<Rightarrow> error + unit" where
  "failing_save session = Inl StorageError"

section \<open>Sample sessions\<close>

text \<open>
  A session with the given timestamp, variability and context, and no samples; the sample
  histories of the closed theorems below are built from it.
\<close>

definition session_of :: "int \<Rightarrow> real \<Rightarrow> RecordingContext option \<Rightarrow> RecordingSession" where
  "session_of t v c =
     \<lparr> session_id = ''session'', timestamp = t, duration = 10,
       accelerometer = \<lparr> axis_x = [], axis_y = [], axis_z = [] \<rparr>,
       gyroscope = \<lparr> axis_x = [], axis_y = [], axis_z = [] \<rparr>,
       magnitude = [],
       stats = \<lparr> meanAmplitude = 0, variability = v, peakAmplitude = 0 \<rparr>,
       session_context = c \<rparr>"

definition with_flags :: "bool \<Rightarrow> bool \<Rightarrow> RecordingContext option" where
  "with_flags c s =
     Some \<lparr> caffeine = Some c, sleepDeprived = None, stress = Some s, notes' = None \<rparr>"

text \<open>
  Ten sessions of the last week: five with caffeine, of variability 15, and five without,
  of variability 10; none is marked as stressful.
\<close>

definition caffeine_history :: "RecordingSession list" where
  "caffeine_history =
     [session_of 900000000 15 (with_flags True False),
      session_of 900000001 10 (with_flags False False),
      session_of 900000002 15 (with_flags True False),
      session_of 900000003 10 (with_flags False False),
      session_of 900000004 15 (with_flags True False),
      session_of 900000005 10 (with_flags False False),
      session_of 900000006 15 (with_flags True False),
      session_of 900000007 10 (with_flags False False),
      session_of 900000008 15 (with_flags True False),
      session_of 900000009 10 (with_flags False False)]"

text \<open>
  Six sessions of the last week: three with caffeine, of variability 3, and three without,
  of variabilities 3, 3 and 4; none is marked as stressful.
\<close>

definition threshold_history :: "RecordingSession list" where
  "threshold_history =
     [session_of 900000000 3 (with_flags True False),
      session_of 900000001 3 (with_flags False False),
      session_of 900000002 3 (with_flags True False),
      session_of 900000003 3 (with_flags False False),
      session_of 900000004 3 (with_flags True False),
      session_of 900000005 4 (with_flags False False)]"

text \<open>
  Six sessions of the last week: three marked as stressful, of variability 229, and three
  others, of variability 200; none with caffeine.
\<close>

definition stress_history :: "RecordingSession list" where
  "stress_history =
     [session_of 900000000 229 (with_flags False True),
      session_of 900000001 200 (with_flags False False),
      session_of 900000002 229 (with_flags False True),
      session_of 900000003 200 (with_flags False False),
      session_of 900000004 229 (with_flags False True),
      session_of 900000005 200 (with_flags False False)]"

text \<open>
  Six sessions of the last week: three with caffeine, of variability 5, and three without,
  of variability 0; none is marked as stressful.
\<close>

definition still_history :: "RecordingSession list" where
  "still_history =
     [session_of 900000000 5 (with_flags True False),
      session_of 900000001 0 (with_flags False False),
      session_of 900000002 5 (with_flags True False),
      session_of 900000003 0 (with_flags False False),
      session_of 900000004 5 (with_flags True False),
      session_of 900000005 0 (with_flags False False)]"

section \<open>The specification's notions\<close>

text \<open>
  The median as the specification words it: the middle element after ascending sort for
  an odd count, the average of the two middle elements for an even count.
\<close>

definition spec_median :: "real list \<Rightarrow> real" where
  "spec_median vs =
     (let s = sort vs; n = length s
      in if even n then (s ! (n div 2 - 1) + s ! (n div 2)) / 2 else s ! (n div 2))"

text \<open>The arithmetic mean of a list of values, exactly.\<close>

definition spec_average :: "real list \<Rightarrow> real" where
  "spec_average vs = sum_list vs / real (length vs)"

text \<open>
  The mean as binary64 computes it: the sum by successive rounded additions from \<open>0\<close>,
  divided by the count. And \<open>a === b\<close> on doubles: the same value, the two zeros being
  equal and \<open>NaN\<close> equal to nothing.
\<close>

definition computed_mean :: "real list \<Rightarrow> double" where
  "computed_mean vs = fdiv (reduce_sum_d vs) (Finite (real (length vs)))"



text \<open>
  The decimal numeral of a natural number, and the percentage as the entry cites it: a
  finite percentage below \<open>10\<^sup>2\<^sup>1\<close> is rounded to the nearest integer, the larger one at a
  tie, and written in decimal digits. Of any other percentage the claim says nothing.
\<close>

definition digit_char :: "nat \<Rightarrow> char" where
  "digit_char d =
     (if d = 0 then CHR ''0'' else if d = 1 then CHR ''1'' else if d = 2 then CHR ''2''
      else if d = 3 then CHR ''3'' else if d = 4 then CHR ''4'' else if d = 5 then CHR ''5''
      else if d = 6 then CHR ''6'' else if d = 7 then CHR ''7'' else if d = 8 then CHR ''8''
      else CHR ''9'')"

fun decimal :: "nat \<Rightarrow> string" where
  "decimal n = (if n < 10 then [digit_char n] else decimal (n div 10) @ [digit_char (n mod 10)])"

declare decimal.simps [simp del]

fun spec_percentage :: "double \<Rightarrow> string option" where
  "spec_percentage (Finite p) = (if 0 \<le> p \<and> p < 10 ^ 21 then Some (decimal (nat (round p))) else None)"
| "spec_percentage MinusZero = None"
| "spec_percentage PlusInfinity = None"
| "spec_percentage MinusInfinity = None"
| "spec_percentage NotANumber = None"

text \<open>
  The two groups of a context flag: the sessions that have a context in which the flag is
  \<open>true\<close>, and all the others. The average variability of a group, and the relative
  difference of the flagged group's average to the other's, both in binary64.
\<close>

definition has_flag :: "(RecordingContext \<Rightarrow> bool option) \<Rightarrow> RecordingSession \<Rightarrow> bool" where
  "has_flag flag s =
     (session_context s \<noteq> None \<and> flag (the (session_context s)) = Some True)"

definition group_average :: "RecordingSession list \<Rightarrow> double" where
  "group_average ss = computed_mean (map (\<lambda>s. variability (stats s)) ss)"

definition relative_difference :: "RecordingSession list \<Rightarrow> RecordingSession list \<Rightarrow> double" where
  "relative_difference yes no =
     fdiv (fsub (group_average yes) (group_average no)) (group_average no)"

text \<open>
  The entries of one flag, as the specification words them: one entry if both groups hold
  more than two sessions and the absolute relative difference exceeds 10%, and none
  otherwise. The entry's impact is negative when the relative difference is positive, and
  its description cites the rounded percentage.
\<close>

definition spec_entry ::
  "string \<Rightarrow> string \<Rightarrow> RecordingSession list \<Rightarrow> RecordingSession list \<Rightarrow> Correlation list \<Rightarrow> bool"
  where
  "spec_entry label phrase yes no entries =
     (let d = relative_difference yes no;
          higher = dgt d (Finite 0)
      in if 2 < length yes \<and> 2 < length no \<and> dgt (dabs d) (dbl 0.1)
         then length entries = 1 \<and>
              context' (hd entries) = label \<and>
              impact (hd entries) = (if higher then Negative else Positive) \<and>
              (case spec_percentage (dabs (fmul d (Finite 100))) of
                 None \<Rightarrow> True
               | Some percentage \<Rightarrow>
                   description (hd entries) =
                     phrase @ percentage @ ''% '' @ (if higher then ''higher'' else ''lower'')
                       @ '' variability.'')
         else entries = [])"

text \<open>
  Where an entry is due, the relative difference is positive exactly when the flagged
  group's average is the higher one.
\<close>

definition higher_average :: "RecordingSession list \<Rightarrow> RecordingSession list \<Rightarrow> bool" where
  "higher_average yes no =
     (let d = relative_difference yes no
      in dgt (dabs d) (dbl 0.1) \<longrightarrow> (dgt d (Finite 0) \<longleftrightarrow> dgt (group_average yes) (group_average no)))"

text \<open>A double that is not negative: \<open>+\<infinity>\<close>, or finite and at least \<open>+0\<close>.\<close>

fun not_negative :: "double \<Rightarrow> bool" where
  "not_negative (Finite v) = (0 \<le> v)"
| "not_negative PlusInfinity = True"
| "not_negative _ = False"

section \<open>Facts about the array operations\<close>



lemma slice_in_range:
  "0 \<le> s \<Longrightarrow> s \<le> e \<Longrightarrow> e \<le> int (length xs) \<Longrightarrow>
   slice xs s e = take (nat e - nat s) (drop (nat s) xs)"
  by (simp add: slice_def relative_index_def Let_def nat_diff_distrib)



section \<open>Smoothing\<close>






section \<open>The median baseline\<close>

lemma at_index_nat: "k < length xs \<Longrightarrow> at_index xs (int k) = Fin (xs ! k)"
  by (simp add: at_index_def)

lemma calculateBaseline_median:
  assumes "sessions \<noteq> []"
  shows "calculateBaseline sessions = Fin (spec_median (map (\<lambda>s. variability (stats s)) sessions))"
proof -
  let ?s = "sort (map (\<lambda>s. variability (stats s)) sessions)"
  let ?n = "length sessions"
  have n: "0 < ?n" using assms by simp
  have len: "length ?s = ?n" by simp
  have i1: "int ?n div 2 = int (?n div 2)" by simp
  have par: "(?n mod 2 = 0) = even ?n" by presburger
  have "?n div 2 < length ?s" using n by simp
  then have mid: "at_index ?s (int ?n div 2) = Fin (?s ! (?n div 2))"
    unfolding i1 by (rule at_index_nat)
  show ?thesis
  proof (cases "even ?n")
    case True
    then have "?n \<noteq> 1" by auto
    then have "1 \<le> ?n div 2" using n by linarith
    then have i2: "int ?n div 2 - 1 = int (?n div 2 - 1)" by linarith
    have "?n div 2 - 1 < ?n" using n by linarith
    then have "?n div 2 - 1 < length ?s" by (simp only: len)
    then have "at_index ?s (int ?n div 2 - 1) = Fin (?s ! (?n div 2 - 1))"
      unfolding i2 by (rule at_index_nat)
    then show ?thesis
      using True n mid
      by (simp add: calculateBaseline_def spec_median_def Let_def par del: of_nat_div)
  next
    case False
    then show ?thesis
      using n mid by (simp add: calculateBaseline_def spec_median_def Let_def par del: of_nat_div)
  qed
qed

text \<open>
  C6. For every non-empty history \<open>calculateBaseline\<close> returns the median of the sessions'
  variabilities: the middle element of the ascending sort for an odd count, the average of
  the two middle elements for an even count; the variabilities \<open>[1, 2, 3, 4]\<close> give 2.5 and
  \<open>[1, 2, 3]\<close> give 2.
\<close>

theorem calculateBaseline_is_median:
  "sessions \<noteq> [] \<Longrightarrow>
     calculateBaseline sessions = Fin (spec_median (map (\<lambda>s. variability (stats s)) sessions)) \<and>
     (map (\<lambda>s. variability (stats s)) sessions = [1, 2, 3, 4]
        \<longrightarrow> calculateBaseline sessions = Fin 2.5) \<and>
     (map (\<lambda>s. variability (stats s)) sessions = [1, 2, 3]
        \<longrightarrow> calculateBaseline sessions = Fin 2)"
  by (simp add: calculateBaseline_median spec_median_def)

theorem calculateBaseline_is_median_witness:
  "[session_of 30 3 None, session_of 10 1 None, session_of 40 4 None, session_of 20 2 None] \<noteq> [] \<and>
   calculateBaseline
     [session_of 30 3 None, session_of 10 1 None, session_of 40 4 None, session_of 20 2 None]
     = Fin 2.5 \<and>
   calculateBaseline [session_of 10 1 None, session_of 20 2 None, session_of 30 3 None] = Fin 2 \<and>
   calculateBaseline [session_of 10 1 None, session_of 20 2 None, session_of 30 3 None,
     session_of 40 4 None] = Fin 2.5"
  using calculateBaseline_is_median
          [of "[session_of 30 3 None, session_of 10 1 None, session_of 40 4 None, session_of 20 2 None]"]
        calculateBaseline_is_median
          [of "[session_of 10 1 None, session_of 20 2 None, session_of 30 3 None]"]
        calculateBaseline_is_median
          [of "[session_of 10 1 None, session_of 20 2 None, session_of 30 3 None, session_of 40 4 None]"]
  by (simp add: session_of_def spec_median_def)

section \<open>Facts about binary64 rounding\<close>

lemma pow2_powr: "pow2 k = 2 powr (real_of_int k)"
proof (cases "0 \<le> k")
  case True
  then show ?thesis by (simp add: pow2_def powr_realpow [symmetric])
next
  case False
  have "(2::real) powr (real_of_int k) = 1 / 2 powr (real_of_int (- k))"
    using powr_minus_divide [of "2::real" "real_of_int (- k)"] by simp
  also have "\<dots> = 1 / 2 ^ nat (- k)"
    using False by (simp add: powr_realpow [symmetric])
  finally show ?thesis using False by (simp add: pow2_def)
qed

lemma pow2_pos: "0 < pow2 k"
  by (simp add: pow2_powr)

lemma pow2_add: "pow2 (a + b) = pow2 a * pow2 b"
  by (simp add: pow2_powr powr_add)

lemma pow2_double: "pow2 (k + 1) = 2 * pow2 k"
  using pow2_add [of k 1] by (simp add: pow2_def [of 1])

lemma pow2_less_next: "pow2 k < pow2 (k + 1)"
  using pow2_pos [of k] by (simp add: pow2_double)

lemma exponent_normal:
  assumes "pow2 e \<le> \<bar>r\<bar>" and "\<bar>r\<bar> < pow2 (e + 1)" and "- 1022 \<le> e"
  shows "exponent r = e"
proof -
  have "0 < \<bar>r\<bar>" using assms(1) pow2_pos [of e] by linarith
  then have "\<lfloor>log 2 \<bar>r\<bar>\<rfloor> = e"
    using assms(1,2) by (simp add: floor_log_eq_powr_iff pow2_powr)
  then show ?thesis using assms(3) by (simp add: exponent_def)
qed



lemma round_even_lower: "of_int m \<le> x \<Longrightarrow> m \<le> round_even x"
proof -
  assume "of_int m \<le> x"
  then have "m \<le> \<lfloor>x\<rfloor>" by (simp add: le_floor_iff)
  then show ?thesis by (auto simp: round_even_def Let_def)
qed

lemma round_even_upper: "x \<le> of_int m \<Longrightarrow> round_even x \<le> m"
proof (cases "x = of_int \<lfloor>x\<rfloor>")
  case True
  assume "x \<le> of_int m"
  then have "\<lfloor>x\<rfloor> \<le> m" by (simp add: floor_le_iff)
  moreover have "round_even x = \<lfloor>x\<rfloor>" using True by (simp add: round_even_def)
  ultimately show ?thesis by simp
next
  case False
  assume le: "x \<le> of_int m"
  have "of_int \<lfloor>x\<rfloor> < x" using False of_int_floor_le [of x] by linarith
  then have "of_int \<lfloor>x\<rfloor> < (of_int m :: real)" using le by linarith
  then have "\<lfloor>x\<rfloor> + 1 \<le> m" by simp
  then show ?thesis by (auto simp: round_even_def Let_def)
qed

lemma fl_zero: "fl 0 = 0"
  by (simp add: fl_def)

lemma fl_by_exponent:
  "r \<noteq> 0 \<Longrightarrow> exponent r = e \<Longrightarrow>
   fl r = of_int (round_even (r / pow2 (e - 52))) * pow2 (e - 52)"
  by (simp add: fl_def)



lemma pow2_mono: "a \<le> b \<Longrightarrow> pow2 a \<le> pow2 b"
  by (simp add: pow2_powr)

lemma rnd_zero: "rnd 0 = Finite 0"
  using pow2_pos [of 1024] by (simp add: rnd_def fl_zero)

lemma rnd_normal:
  assumes "pow2 e \<le> \<bar>r\<bar>" and "\<bar>r\<bar> < pow2 (e + 1)" and "- 1022 \<le> e" and "e \<le> 1022"
    and "round_even (r / pow2 (e - 52)) = n" and "\<bar>n\<bar> \<le> 2 ^ 53"
    and "q = of_int n * pow2 (e - 52)"
  shows "rnd r = Finite q"
proof -
  have r0: "r \<noteq> 0" using assms(1) pow2_pos [of e] by auto
  have u: "0 < pow2 (e - 52)" by (rule pow2_pos)
  have ex: "exponent r = e" using assms(1-3) by (rule exponent_normal)
  have fl: "fl r = q" using fl_by_exponent [OF r0 ex] assms(5,7) by simp
  have "e + 1 = 53 + (e - 52)" "e = 52 + (e - 52)" by simp_all
  then have up: "pow2 (e + 1) = pow2 53 * pow2 (e - 52)" "pow2 e = pow2 52 * pow2 (e - 52)"
    by (metis pow2_add)+
  have p: "pow2 52 = 2 ^ 52" "pow2 53 = 2 ^ 53" by (simp_all add: pow2_def)
  have "real_of_int \<bar>n\<bar> \<le> of_int (2 ^ 53)" using assms(6) by (simp only: of_int_le_iff)
  then have "of_int \<bar>n\<bar> \<le> (2 ^ 53 :: real)" by simp
  then have "of_int \<bar>n\<bar> * pow2 (e - 52) \<le> 2 ^ 53 * pow2 (e - 52)"
    using u by (simp only: mult_right_mono less_imp_le)
  moreover have "\<bar>q\<bar> = of_int \<bar>n\<bar> * pow2 (e - 52)" using u by (simp add: assms(7) abs_mult)
  ultimately have "\<bar>q\<bar> \<le> pow2 (e + 1)" unfolding up p by simp
  moreover have "pow2 (e + 1) \<le> pow2 1023" using assms(4) by (intro pow2_mono) simp
  moreover have "pow2 1023 < pow2 1024" using pow2_less_next [of 1023] by simp
  ultimately have small: "\<not> pow2 1024 \<le> \<bar>q\<bar>" by linarith
  have "q \<noteq> 0"
  proof
    assume "q = 0"
    then have "n = 0" using u by (simp add: assms(7))
    then have "round_even (r / pow2 (e - 52)) = 0" using assms(5) by simp
    moreover have "2 ^ 52 * pow2 (e - 52) \<le> \<bar>r\<bar>" using assms(1) unfolding up p .
    then have "2 ^ 52 \<le> \<bar>r / pow2 (e - 52)\<bar>" using u by (simp add: field_simps)
    then have "of_int 1 \<le> r / pow2 (e - 52) \<or> r / pow2 (e - 52) \<le> of_int (- 1)"
      by (simp add: abs_if split: if_splits)
    then have "1 \<le> round_even (r / pow2 (e - 52)) \<or> round_even (r / pow2 (e - 52)) \<le> - 1"
      using round_even_lower [of 1 "r / pow2 (e - 52)"] round_even_upper [of "r / pow2 (e - 52)" "- 1"]
      by blast
    ultimately show False by simp
  qed
  then show ?thesis using small by (simp add: rnd_def fl)
qed

lemma fdiv_finite: "a \<noteq> 0 \<Longrightarrow> b \<noteq> 0 \<Longrightarrow> fdiv (Finite a) (Finite b) = rnd (a / b)"
  by (simp add: fdiv_def is_zero_def is_inf_def)

lemma fmul_finite: "a \<noteq> 0 \<Longrightarrow> b \<noteq> 0 \<Longrightarrow> fmul (Finite a) (Finite b) = rnd (a * b)"
  by (simp add: fmul_def is_zero_def is_inf_def)

lemma fadd_finite: "fadd (Finite a) (Finite b) = rnd (a + b)"
  by (simp add: fadd_def is_inf_def)

lemma fsub_finite: "fsub (Finite a) (Finite b) = rnd (a - b)"
  by (simp add: fsub_def fadd_def is_inf_def)


lemma fl_nonneg: "0 \<le> r \<Longrightarrow> 0 \<le> fl r"
proof -
  assume "0 \<le> r"
  then have "of_int 0 \<le> r / pow2 (exponent r - 52)"
    using pow2_pos [of "exponent r - 52"] by simp
  then have "0 \<le> round_even (r / pow2 (exponent r - 52))" by (rule round_even_lower)
  then show ?thesis using pow2_pos [of "exponent r - 52"] by (simp add: fl_def)
qed

lemma fl_nonpos: "r \<le> 0 \<Longrightarrow> fl r \<le> 0"
proof -
  assume "r \<le> 0"
  then have "r / pow2 (exponent r - 52) \<le> of_int 0"
    using pow2_pos [of "exponent r - 52"] by (simp add: divide_le_0_iff)
  then have "round_even (r / pow2 (exponent r - 52)) \<le> 0" by (rule round_even_upper)
  then show ?thesis
    using pow2_pos [of "exponent r - 52"] by (simp add: fl_def mult_le_0_iff)
qed

lemma rnd_cases:
  obtains (finite) q where "rnd r = Finite q" "q = fl r"
  | (minus_zero) "rnd r = MinusZero" "r < 0"
  | (plus_inf) "rnd r = PlusInfinity" "0 \<le> r"
  | (minus_inf) "rnd r = MinusInfinity" "r < 0"
proof -
  have "rnd r = Finite (fl r) \<or> (rnd r = MinusZero \<and> r < 0) \<or>
        (rnd r = PlusInfinity \<and> 0 \<le> r) \<or> (rnd r = MinusInfinity \<and> r < 0)"
    by (simp add: rnd_def Let_def)
  then show ?thesis using that by blast
qed


text \<open>Signs of rounded results.\<close>

lemma rnd_not_negative: "0 \<le> r \<Longrightarrow> not_negative (rnd r)"
  by (cases r rule: rnd_cases) (simp_all add: fl_nonneg)

lemma rnd_positive: "dgt (rnd r) (Finite 0) \<Longrightarrow> 0 < r"
proof (cases r rule: rnd_cases)
  case (finite q)
  assume "dgt (rnd r) (Finite 0)"
  then have "0 < fl r" using finite by (simp add: dgt_def dlt_def)
  then show ?thesis using fl_nonpos [of r] by (cases "0 < r") auto
next
  case plus_inf
  then have "r \<noteq> 0" using rnd_zero by auto
  then show ?thesis using plus_inf by simp
qed (simp_all add: dgt_def dlt_def)

lemma rnd_negative: "dlt (rnd r) (Finite 0) \<Longrightarrow> r < 0"
proof (cases r rule: rnd_cases)
  case (finite q)
  assume "dlt (rnd r) (Finite 0)"
  then have "fl r < 0" using finite by (simp add: dlt_def)
  then show ?thesis using fl_nonneg [of r] by (cases "r < 0") auto
qed (simp_all add: dlt_def)

lemma sign_cases:
  assumes "d \<noteq> NotANumber" "\<not> is_zero d"
  shows "dgt d (Finite 0) \<longleftrightarrow> \<not> dlt d (Finite 0)"
  using assms by (cases d) (auto simp: dgt_def dlt_def is_zero_def)

lemma fsub_sign:
  assumes "not_negative a" "not_negative n"
    and "fsub a n \<noteq> NotANumber" "\<not> is_zero (fsub a n)"
  shows "dgt (fsub a n) (Finite 0) \<longleftrightarrow> dgt a n"
proof (cases a)
  case (Finite x)
  show ?thesis
  proof (cases n)
    case (Finite y)
    have sub: "fsub a n = rnd (x - y)"
      using \<open>a = Finite x\<close> Finite by (simp add: fsub_finite)
    have "dgt (rnd (x - y)) (Finite 0) \<longleftrightarrow> y < x"
    proof
      assume "dgt (rnd (x - y)) (Finite 0)"
      then show "y < x" using rnd_positive [of "x - y"] by simp
    next
      assume "y < x"
      have "\<not> dlt (rnd (x - y)) (Finite 0)"
        using rnd_negative [of "x - y"] \<open>y < x\<close> by auto
      then show "dgt (rnd (x - y)) (Finite 0)"
        using sign_cases [of "fsub a n"] assms(3,4) sub by simp
    qed
    then show ?thesis using \<open>a = Finite x\<close> Finite sub by (simp add: dgt_def dlt_def)
  qed (use assms Finite in \<open>auto simp: fsub_def fadd_def is_inf_def dgt_def dlt_def\<close>)
qed (use assms in \<open>cases n; auto simp: fsub_def fadd_def is_inf_def dgt_def dlt_def\<close>)+

lemma fdiv_sign:
  assumes "not_negative n"
    and "fdiv d n \<noteq> NotANumber" "\<not> is_zero (fdiv d n)"
  shows "d \<noteq> NotANumber \<and> \<not> is_zero d \<and> (dgt (fdiv d n) (Finite 0) \<longleftrightarrow> dgt d (Finite 0))"
proof -
  have d: "d \<noteq> NotANumber" using assms(2) by (auto simp: fdiv_def)
  have z: "\<not> is_zero d"
    using assms by (cases n) (auto simp: fdiv_def is_zero_def is_inf_def signed_zero_def split: if_splits)
  have "dgt (fdiv d n) (Finite 0) \<longleftrightarrow> dgt d (Finite 0)"
  proof (cases "is_inf d \<or> is_zero n \<or> is_inf n")
    case True
    then show ?thesis
      using assms d z
      by (cases n; cases d)
         (auto simp: fdiv_def is_zero_def is_inf_def signed_zero_def signed_inf_def dgt_def dlt_def
               split: if_splits)
  next
    case False
    then obtain x y where xy: "d = Finite x" "n = Finite y" "0 < y" "x \<noteq> 0"
      using assms(1) d z by (cases d; cases n) (auto simp: is_inf_def is_zero_def)
    then have q: "fdiv d n = rnd (x / y)" by (simp add: fdiv_finite)
    have "dgt (rnd (x / y)) (Finite 0) \<longleftrightarrow> 0 < x"
    proof
      assume "dgt (rnd (x / y)) (Finite 0)"
      then have "0 < x / y" by (rule rnd_positive)
      then show "0 < x" using xy(3) by (simp add: zero_less_divide_iff)
    next
      assume "0 < x"
      then have "0 < x / y" using xy(3) by simp
      then have "\<not> dlt (rnd (x / y)) (Finite 0)"
        using rnd_negative [of "x / y"] by auto
      then show "dgt (rnd (x / y)) (Finite 0)"
        using sign_cases [of "fdiv d n"] assms(2,3) q by simp
    qed
    then show ?thesis using xy q by (simp add: dgt_def dlt_def)
  qed
  then show ?thesis using d z by simp
qed

lemma exceeds_tenth:
  assumes "dgt (dabs d) (dbl 0.1)"
  shows "d \<noteq> NotANumber \<and> \<not> is_zero d"
proof -
  have "not_negative (dbl 0.1)" unfolding dbl_def by (rule rnd_not_negative) simp
  then show ?thesis
    using assms by (cases d; cases "dbl 0.1") (auto simp: dgt_def dlt_def is_zero_def)
qed

lemma relative_sign:
  assumes "not_negative a \<or> a = NotANumber" "not_negative n \<or> n = NotANumber"
    and "dgt (dabs (fdiv (fsub a n) n)) (dbl 0.1)"
  shows "dgt (fdiv (fsub a n) n) (Finite 0) \<longleftrightarrow> dgt a n"
proof -
  have d: "fdiv (fsub a n) n \<noteq> NotANumber" "\<not> is_zero (fdiv (fsub a n) n)"
    using exceeds_tenth [OF assms(3)] by simp_all
  have n: "not_negative n" using d(1) assms(2) by (auto simp: fdiv_def)
  have "fsub a n \<noteq> NotANumber" using fdiv_sign [OF n d] by simp
  then have a: "not_negative a" using assms(1) by (auto simp: fsub_def fadd_def)
  show ?thesis
    using fdiv_sign [OF n d] fsub_sign [OF a n] by simp
qed

lemma fadd_not_negative: "not_negative a \<Longrightarrow> not_negative b \<Longrightarrow> not_negative (fadd a b)"
  by (cases a; cases b) (auto simp: fadd_def is_inf_def rnd_not_negative)

lemma foldl_not_negative:
  "not_negative acc \<Longrightarrow> \<forall>x \<in> set xs. 0 \<le> x \<Longrightarrow>
   not_negative (foldl (\<lambda>sum val. fadd sum (dbl val)) acc xs)"
  by (induction xs arbitrary: acc) (simp_all add: fadd_not_negative rnd_not_negative dbl_def)

lemma computed_mean_not_negative:
  assumes "\<forall>x \<in> set xs. 0 \<le> x"
  shows "not_negative (computed_mean xs) \<or> computed_mean xs = NotANumber"
proof (cases "xs = []")
  case True
  then show ?thesis
    by (simp add: computed_mean_def reduce_sum_d_def fdiv_def is_zero_def)
next
  case False
  then have len: "0 < real (length xs)" by simp
  have s: "not_negative (reduce_sum_d xs)"
    unfolding reduce_sum_d_def using assms by (intro foldl_not_negative) simp_all
  show ?thesis
  proof (cases "reduce_sum_d xs")
    case (Finite v)
    then have "0 \<le> v / real (length xs)" using s len by simp
    then show ?thesis
      using Finite len rnd_not_negative [of "v / real (length xs)"]
      by (simp add: computed_mean_def fdiv_def is_zero_def is_inf_def signed_zero_def)
  qed (use s len in \<open>auto simp: computed_mean_def fdiv_def is_zero_def is_inf_def signed_inf_def\<close>)
qed

section \<open>Binary64 at sample values\<close>

text \<open>
  \<open>0.1 + 0.2\<close> is \<open>0.30000000000000004\<close>; a tie is rounded to the even significand; \<open>1 / 3\<close>
  and \<open>0.145 * 100\<close> are rounded.
\<close>

lemma sample_1: "dbl (1 / 10) = Finite (3602879701896397 / 36028797018963968)"
  by (simp add: dbl_def, rule rnd_normal [where e = "- 4" and n = "7205759403792794"]) (simp_all add: pow2_def round_even_def)

lemma sample_2: "dbl (1 / 5) = Finite (3602879701896397 / 18014398509481984)"
  by (simp add: dbl_def, rule rnd_normal [where e = "- 3" and n = "7205759403792794"]) (simp_all add: pow2_def round_even_def)

lemma sample_3: "fadd (Finite (3602879701896397 / 36028797018963968)) (Finite (3602879701896397 / 18014398509481984)) = Finite (1351079888211149 / 4503599627370496)"
  by (simp add: fadd_finite, rule rnd_normal [where e = "- 2" and n = "5404319552844596"]) (simp_all add: pow2_def round_even_def)

lemma sample_4: "fadd (Finite 9007199254740992) (Finite 1) = Finite 9007199254740992"
  by (simp add: fadd_finite, rule rnd_normal [where e = "53" and n = "4503599627370496"]) (simp_all add: pow2_def round_even_def)

lemma sample_5: "fadd (Finite 9007199254740994) (Finite 1) = Finite 9007199254740996"
  by (simp add: fadd_finite, rule rnd_normal [where e = "53" and n = "4503599627370498"]) (simp_all add: pow2_def round_even_def)

lemma sample_6: "fdiv (Finite 1) (Finite 3) = Finite (6004799503160661 / 18014398509481984)"
  by (simp add: fdiv_finite, rule rnd_normal [where e = "- 2" and n = "6004799503160661"]) (simp_all add: pow2_def round_even_def)

lemma sample_7: "fmul (Finite (5224175567749775 / 36028797018963968)) (Finite 100) = Finite (8162774324609023 / 562949953421312)"
  by (simp add: fmul_finite, rule rnd_normal [where e = "3" and n = "8162774324609023"]) (simp_all add: pow2_def round_even_def)

lemma sample_8: "fsub (Finite (5404319552844595 / 18014398509481984)) (Finite (3602879701896397 / 36028797018963968)) = Finite (7205759403792793 / 36028797018963968)"
  by (simp add: fsub_finite, rule rnd_normal [where e = "- 3" and n = "7205759403792793"]) (simp_all add: pow2_def round_even_def)

text \<open>Division by a zero, comparisons with \<open>NaN\<close>, \<open>||\<close>, \<open>Math.round\<close> and \<open>toFixed(0)\<close>.\<close>

lemma sample_division:
  "fdiv (Finite 1) (Finite 0) = PlusInfinity \<and> fdiv (Finite (- 1)) (Finite 0) = MinusInfinity \<and>
   fdiv (Finite 1) MinusZero = MinusInfinity \<and> fdiv (Finite 0) (Finite 0) = NotANumber \<and>
   fdiv (Finite 1) PlusInfinity = Finite 0 \<and> fdiv PlusInfinity PlusInfinity = NotANumber"
  by (simp add: fdiv_def is_zero_def is_inf_def signed_inf_def signed_zero_def)

lemma sample_comparison:
  "\<not> dlt NotANumber (Finite 1) \<and> \<not> dgt NotANumber (Finite 1) \<and> \<not> dlt MinusZero (Finite 0) \<and>
   dlt (Finite 1) PlusInfinity \<and> \<not> dlt PlusInfinity PlusInfinity \<and> dgt (Finite 2) (Finite 1)"
  by (simp add: dlt_def dgt_def)

lemma sample_or:
  "js_or (Finite 0) (Finite 1) = Finite 1 \<and> js_or MinusZero (Finite 1) = Finite 1 \<and>
   js_or NotANumber (Finite 1) = Finite 1 \<and> js_or (Finite 2) (Finite 1) = Finite 2 \<and>
   js_or PlusInfinity (Finite 1) = PlusInfinity"
  by (simp add: js_or_def truthy_def is_zero_def)

lemma sample_round:
  "dround (Finite (5 / 2)) = Finite 3 \<and> dround (Finite (- (5 / 2))) = Finite (- 2) \<and>
   dround (Finite (- (1 / 5))) = MinusZero \<and> dround (Finite (12 / 5)) = Finite 2 \<and>
   dround NotANumber = NotANumber \<and> dround PlusInfinity = PlusInfinity"
  by simp

lemma sample_clamp:
  "dmax (Finite 0) (dmin (Finite 100) (Finite 150)) = Finite 100 \<and>
   dmax (Finite 0) (dmin (Finite 100) (Finite (- 20))) = Finite 0 \<and>
   dmax (Finite 0) (dmin (Finite 100) (Finite 30)) = Finite 30 \<and>
   dmax (Finite 0) (dmin (Finite 100) NotANumber) = NotANumber"
  by (simp add: dmax_def dmin_def dlt_def)

lemma sample_toFixed0:
  "toFixed0 big (Finite (1 / 2)) = ''1'' \<and> toFixed0 big (Finite (29 / 2)) = ''15'' \<and>
   toFixed0 big (Finite (72 / 5)) = ''14'' \<and> toFixed0 big (Finite 0) = ''0'' \<and>
   toFixed0 big (Finite 100) = ''100'' \<and> toFixed0 big PlusInfinity = ''Infinity''"
  by (simp add: digits.simps)

section \<open>Anomalies of a constant series\<close>



lemma foldl_fadd_NaN:
  "xs \<noteq> [] \<Longrightarrow> foldl (\<lambda>sum val. fadd sum NotANumber) a xs = NotANumber"
proof (induction xs arbitrary: a)
  case Nil
  then show ?case by simp
next
  case (Cons x xs)
  have "fadd a NotANumber = NotANumber" by (simp add: fadd_def)
  then show ?case using Cons.IH [of NotANumber] by (cases xs) (simp_all add: fadd_def)
qed

































section \<open>Classification\<close>

text \<open>The literals of the rules as doubles, and the quotients of two sample inputs.\<close>

lemma classify_1: "dbl (11 / 10) = Finite (2476979795053773 / 2251799813685248)"
  by (simp add: dbl_def, rule rnd_normal [where e = "0" and n = "4953959590107546"]) (simp_all add: pow2_def round_even_def)

lemma classify_2: "dbl (3 / 2) = Finite (3 / 2)"
  by (simp add: dbl_def, rule rnd_normal [where e = "0" and n = "6755399441055744"]) (simp_all add: pow2_def round_even_def)

lemma classify_3: "dbl (6 / 5) = Finite (5404319552844595 / 4503599627370496)"
  by (simp add: dbl_def, rule rnd_normal [where e = "0" and n = "5404319552844595"]) (simp_all add: pow2_def round_even_def)

lemma classify_4: "dbl 8800000000000001 = Finite 8800000000000001"
  by (simp add: dbl_def, rule rnd_normal [where e = "52" and n = "8800000000000001"]) (simp_all add: pow2_def round_even_def)

lemma classify_5: "dbl 8000000000000001 = Finite 8000000000000001"
  by (simp add: dbl_def, rule rnd_normal [where e = "52" and n = "8000000000000001"]) (simp_all add: pow2_def round_even_def)

lemma classify_6: "fdiv (Finite 8800000000000001) (Finite 8000000000000001) = Finite (2476979795053773 / 2251799813685248)"
  by (simp add: fdiv_finite, rule rnd_normal [where e = "0" and n = "4953959590107546"]) (simp_all add: pow2_def round_even_def)

lemma classify_7: "dbl (9 / 20) = Finite (8106479329266893 / 18014398509481984)"
  by (simp add: dbl_def, rule rnd_normal [where e = "- 2" and n = "8106479329266893"]) (simp_all add: pow2_def round_even_def)

lemma classify_8: "dbl (3 / 10) = Finite (5404319552844595 / 18014398509481984)"
  by (simp add: dbl_def, rule rnd_normal [where e = "- 2" and n = "5404319552844595"]) (simp_all add: pow2_def round_even_def)

lemma classify_9: "fdiv (Finite (8106479329266893 / 18014398509481984)) (Finite (5404319552844595 / 18014398509481984)) = Finite (3 / 2)"
  by (simp add: fdiv_finite, rule rnd_normal [where e = "0" and n = "6755399441055744"]) (simp_all add: pow2_def round_even_def)

lemmas classify_arith =
  classify_1 classify_2 classify_3 classify_4 classify_5 classify_6 classify_7 classify_8
  classify_9

text \<open>
  C4, as amended. For every current variability \<open>v\<close>, baseline \<open>b\<close> and trend \<open>t\<close>,
  \<open>classifyStability\<close> evaluates the ordered rules, the first match winning, over the
  binary64 quotient \<open>ratio = v / b'\<close>, where \<open>b'\<close> is \<open>b\<close> unless \<open>b\<close> is a zero or \<open>NaN\<close>, and
  then \<open>1\<close>; the thresholds are the doubles that the literals 1.1, 1.5 and 1.2 denote.
\<close>

theorem classifyStability_rules:
  "classifyStability v b t =
     (let b' = (if b = Finite 0 \<or> b = MinusZero \<or> b = NotANumber then Finite 1 else b);
          ratio = fdiv v b'
      in if dlt ratio (dbl 1.1) \<and> t = T_stable then \<lparr> type' = C_stable, confidence = 0.9 \<rparr>
         else if dgt ratio (dbl 1.5) \<or> t = T_increasing
           then \<lparr> type' = C_increasing, confidence = 0.8 \<rparr>
         else if dgt ratio (dbl 1.2) then \<lparr> type' = C_variable, confidence = 0.7 \<rparr>
         else \<lparr> type' = C_irregular, confidence = 0.6 \<rparr>)"
  by (simp add: classifyStability_def js_or_def truthy_def is_zero_def Let_def)

text \<open>
  C4 as stated, with the exact quotient, fails: the quotient of 8800000000000001 by
  8000000000000001 is below 1.1 and the trend is stable, but the rounded quotient is the
  double 1.1 itself, and the classification is irregular. Likewise the doubles 0.45 and
  0.3 have an exact quotient above 1.5 and a rounded quotient of 1.5.
\<close>

theorem classifyStability_exact_ratio_counterexample:
  "(8800000000000001 :: real) / 8000000000000001 < 1.1 \<and>
   classifyStability (dbl 8800000000000001) (dbl 8000000000000001) T_stable
     = \<lparr> type' = C_irregular, confidence = 0.6 \<rparr>"
  by (simp add: classifyStability_def js_or_def truthy_def is_zero_def Let_def dlt_def dgt_def
        classify_arith)

lemma classifyStability_rounded_to_threshold:
  "classifyStability (dbl 0.45) (dbl 0.3) T_stable = \<lparr> type' = C_variable, confidence = 0.7 \<rparr>"
  by (simp add: classifyStability_def js_or_def truthy_def is_zero_def Let_def dlt_def dgt_def
        classify_arith)

section \<open>Trend\<close>

lemma slice_prefix: "slice xs 0 (int (length xs) div 2) = take (length xs div 2) xs"
proof -
  have "int (length xs) div 2 = int (length xs div 2)" by simp
  moreover have "slice xs 0 (int (length xs div 2)) = take (length xs div 2) xs"
    using slice_in_range [of 0 "int (length xs div 2)" xs] by simp
  ultimately show ?thesis by (simp only:)
qed

lemma slice_from_suffix: "slice_from xs (int (length xs) div 2) = drop (length xs div 2) xs"
proof -
  have "int (length xs) div 2 = int (length xs div 2)" by simp
  moreover have "slice xs (int (length xs div 2)) (int (length xs)) = drop (length xs div 2) xs"
    using slice_in_range [of "int (length xs div 2)" "int (length xs)" xs] by simp
  ultimately show ?thesis by (simp only: slice_from_def)
qed

lemma detectTrend_recent:
  fixes now :: int and sessions :: "RecordingSession list"
  defines "recent \<equiv> filter (\<lambda>s. now - 7 * 24 * 60 * 60 * 1000 \<le> timestamp s) sessions"
  defines "vs \<equiv> map (\<lambda>s. variability (stats s)) (sort_key timestamp recent)"
  defines "firstAvg \<equiv> computed_mean (take (length vs div 2) vs)"
  defines "secondAvg \<equiv> computed_mean (drop (length vs div 2) vs)"
  assumes three: "3 \<le> length recent"
  shows "detectTrend now sessions 7 =
     (let change = fdiv (fsub secondAvg firstAvg) firstAvg
      in if dgt change (dbl 0.15) then T_increasing
         else if dlt change (fneg (dbl 0.15)) then T_decreasing else T_stable)"
proof -
  have n: "length vs = length recent" by (simp add: vs_def)
  have "length recent \<le> length sessions" by (simp add: recent_def)
  then have s3: "\<not> length sessions < 3" using three by simp
  have r3: "\<not> length recent < 3" using three by simp
  show ?thesis
    unfolding detectTrend_def Let_def firstAvg_def secondAvg_def computed_mean_def
    using s3 r3
    by (simp only: if_False length_sort slice_prefix slice_from_suffix
          recent_def [symmetric] vs_def [symmetric])
qed

text \<open>The literal 0.15 as a double, and the arithmetic of four sample histories.\<close>

lemma trend_1: "dbl (3 / 20) = Finite (5404319552844595 / 36028797018963968)"
  by (simp add: dbl_def, rule rnd_normal [where e = "- 3" and n = "5404319552844595"]) (simp_all add: pow2_def round_even_def)

lemma trend_2: "dbl 44 = Finite 44"
  by (simp add: dbl_def, rule rnd_normal [where e = "5" and n = "6192449487634432"]) (simp_all add: pow2_def round_even_def)

lemma trend_3: "fadd (Finite 0) (Finite 44) = Finite 44"
  by (simp add: fadd_finite, rule rnd_normal [where e = "5" and n = "6192449487634432"]) (simp_all add: pow2_def round_even_def)

lemma trend_4: "dbl 8 = Finite 8"
  by (simp add: dbl_def, rule rnd_normal [where e = "3" and n = "4503599627370496"]) (simp_all add: pow2_def round_even_def)

lemma trend_5: "fadd (Finite 44) (Finite 8) = Finite 52"
  by (simp add: fadd_finite, rule rnd_normal [where e = "5" and n = "7318349394477056"]) (simp_all add: pow2_def round_even_def)

lemma trend_6: "dbl 48 = Finite 48"
  by (simp add: dbl_def, rule rnd_normal [where e = "5" and n = "6755399441055744"]) (simp_all add: pow2_def round_even_def)

lemma trend_7: "fadd (Finite 52) (Finite 48) = Finite 100"
  by (simp add: fadd_finite, rule rnd_normal [where e = "6" and n = "7036874417766400"]) (simp_all add: pow2_def round_even_def)

lemma trend_8: "fdiv (Finite 100) (Finite 3) = Finite (4691249611844267 / 140737488355328)"
  by (simp add: fdiv_finite, rule rnd_normal [where e = "5" and n = "4691249611844267"]) (simp_all add: pow2_def round_even_def)

lemma trend_9: "dbl 3 = Finite 3"
  by (simp add: dbl_def, rule rnd_normal [where e = "1" and n = "6755399441055744"]) (simp_all add: pow2_def round_even_def)

lemma trend_10: "fadd (Finite 0) (Finite 3) = Finite 3"
  by (simp add: fadd_finite, rule rnd_normal [where e = "1" and n = "6755399441055744"]) (simp_all add: pow2_def round_even_def)

lemma trend_11: "dbl 46 = Finite 46"
  by (simp add: dbl_def, rule rnd_normal [where e = "5" and n = "6473924464345088"]) (simp_all add: pow2_def round_even_def)

lemma trend_12: "fadd (Finite 3) (Finite 46) = Finite 49"
  by (simp add: fadd_finite, rule rnd_normal [where e = "5" and n = "6896136929411072"]) (simp_all add: pow2_def round_even_def)

lemma trend_13: "dbl 36 = Finite 36"
  by (simp add: dbl_def, rule rnd_normal [where e = "5" and n = "5066549580791808"]) (simp_all add: pow2_def round_even_def)

lemma trend_14: "fadd (Finite 49) (Finite 36) = Finite 85"
  by (simp add: fadd_finite, rule rnd_normal [where e = "6" and n = "5981343255101440"]) (simp_all add: pow2_def round_even_def)

lemma trend_15: "fdiv (Finite 85) (Finite 3) = Finite (7975124340135253 / 281474976710656)"
  by (simp add: fdiv_finite, rule rnd_normal [where e = "4" and n = "7975124340135253"]) (simp_all add: pow2_def round_even_def)

lemma trend_16: "fsub (Finite (7975124340135253 / 281474976710656)) (Finite (4691249611844267 / 140737488355328)) = Finite (- (1407374883553281 / 281474976710656))"
  by (simp add: fsub_finite, rule rnd_normal [where e = "2" and n = "- 5629499534213124"]) (simp_all add: pow2_def round_even_def)

lemma trend_17: "fdiv (Finite (- (1407374883553281 / 281474976710656))) (Finite (4691249611844267 / 140737488355328)) = Finite (- (5404319552844599 / 36028797018963968))"
  by (simp add: fdiv_finite, rule rnd_normal [where e = "- 3" and n = "- 5404319552844599"]) (simp_all add: pow2_def round_even_def)

lemma trend_18: "dbl 1 = Finite 1"
  by (simp add: dbl_def, rule rnd_normal [where e = "0" and n = "4503599627370496"]) (simp_all add: pow2_def round_even_def)

lemma trend_19: "fadd (Finite 0) (Finite 1) = Finite 1"
  by (simp add: fadd_finite, rule rnd_normal [where e = "0" and n = "4503599627370496"]) (simp_all add: pow2_def round_even_def)

lemma trend_20: "fdiv (Finite 1) (Finite 1) = Finite 1"
  by (simp add: fdiv_finite, rule rnd_normal [where e = "0" and n = "4503599627370496"]) (simp_all add: pow2_def round_even_def)

lemma trend_21: "dbl 2 = Finite 2"
  by (simp add: dbl_def, rule rnd_normal [where e = "1" and n = "4503599627370496"]) (simp_all add: pow2_def round_even_def)

lemma trend_22: "fadd (Finite 1) (Finite 2) = Finite 3"
  by (simp add: fadd_finite, rule rnd_normal [where e = "1" and n = "6755399441055744"]) (simp_all add: pow2_def round_even_def)

lemma trend_23: "fdiv (Finite 3) (Finite 2) = Finite (3 / 2)"
  by (simp add: fdiv_finite, rule rnd_normal [where e = "0" and n = "6755399441055744"]) (simp_all add: pow2_def round_even_def)

lemma trend_24: "fsub (Finite (3 / 2)) (Finite 1) = Finite (1 / 2)"
  by (simp add: fsub_finite, rule rnd_normal [where e = "- 1" and n = "4503599627370496"]) (simp_all add: pow2_def round_even_def)

lemma trend_25: "fdiv (Finite (1 / 2)) (Finite 1) = Finite (1 / 2)"
  by (simp add: fdiv_finite, rule rnd_normal [where e = "- 1" and n = "4503599627370496"]) (simp_all add: pow2_def round_even_def)

lemma trend_26: "fadd (Finite 0) (Finite 2) = Finite 2"
  by (simp add: fadd_finite, rule rnd_normal [where e = "1" and n = "4503599627370496"]) (simp_all add: pow2_def round_even_def)

lemma trend_27: "fdiv (Finite 2) (Finite 1) = Finite 2"
  by (simp add: fdiv_finite, rule rnd_normal [where e = "1" and n = "4503599627370496"]) (simp_all add: pow2_def round_even_def)

lemma trend_28: "fadd (Finite 1) (Finite 1) = Finite 2"
  by (simp add: fadd_finite, rule rnd_normal [where e = "1" and n = "4503599627370496"]) (simp_all add: pow2_def round_even_def)

lemma trend_29: "fdiv (Finite 2) (Finite 2) = Finite 1"
  by (simp add: fdiv_finite, rule rnd_normal [where e = "0" and n = "4503599627370496"]) (simp_all add: pow2_def round_even_def)

lemma trend_30: "fsub (Finite 1) (Finite 2) = Finite (- 1)"
  by (simp add: fsub_finite, rule rnd_normal [where e = "0" and n = "- 4503599627370496"]) (simp_all add: pow2_def round_even_def)

lemma trend_31: "fdiv (Finite (- 1)) (Finite 2) = Finite (- (1 / 2))"
  by (simp add: fdiv_finite, rule rnd_normal [where e = "- 1" and n = "- 4503599627370496"]) (simp_all add: pow2_def round_even_def)

lemma trend_32: "fsub (Finite 1) (Finite 1) = Finite 0"
  by (simp add: fsub_finite rnd_zero)

lemma trend_33: "fdiv (Finite 0) (Finite 1) = Finite 0"
  by (simp add: fdiv_def is_zero_def is_inf_def signed_zero_def signed_inf_def)

lemmas trend_arith =
  trend_1 trend_2 trend_3 trend_4 trend_5 trend_6 trend_7 trend_8
  trend_9 trend_10 trend_11 trend_12 trend_13 trend_14 trend_15 trend_16
  trend_17 trend_18 trend_19 trend_20 trend_21 trend_22 trend_23 trend_24
  trend_25 trend_26 trend_27 trend_28 trend_29 trend_30 trend_31 trend_32
  trend_33

text \<open>
  C5, as amended. \<open>detectTrend\<close> returns stable when the history has fewer than three
  sessions or fewer than three of them lie within the last seven days. Otherwise the recent
  sessions' variabilities, in ascending order of time, are split at \<open>floor(n/2)\<close> into two
  contiguous halves (the second the larger one for odd \<open>n\<close>); the averages of the halves
  and the change of the second relative to the first are computed in binary64, and the
  result is increasing when this change exceeds the double 0.15, decreasing when it is
  below its negative, and stable otherwise.
\<close>

theorem detectTrend_compares_halves:
  "let recent = filter (\<lambda>s. now - 7 * 24 * 60 * 60 * 1000 \<le> timestamp s) sessions;
       vs = map (\<lambda>s. variability (stats s)) (sort_key timestamp recent);
       firstAvg = computed_mean (take (length vs div 2) vs);
       secondAvg = computed_mean (drop (length vs div 2) vs);
       change = fdiv (fsub secondAvg firstAvg) firstAvg
   in (length sessions < 3 \<or> length recent < 3 \<longrightarrow> detectTrend now sessions 7 = T_stable) \<and>
      (3 \<le> length recent \<longrightarrow>
         detectTrend now sessions 7 =
           (if dgt change (dbl 0.15) then T_increasing
            else if dlt change (fneg (dbl 0.15)) then T_decreasing else T_stable))"
proof -
  let ?recent = "filter (\<lambda>s. now - 7 * 24 * 60 * 60 * 1000 \<le> timestamp s) sessions"
  have few: "detectTrend now sessions 7 = T_stable"
    if "length sessions < 3 \<or> length ?recent < 3"
    using that by (auto simp: detectTrend_def Let_def)
  show ?thesis
    unfolding Let_def
    using few detectTrend_recent [of now sessions]
    by (simp add: Let_def)
qed

theorem detectTrend_compares_halves_witness:
  "detectTrend 1000000000 [session_of 900000000 1 None, session_of 950000000 9 None] 7 = T_stable \<and>
   detectTrend 1000000000 [session_of 900000000 1 None, session_of 900000001 1 None, session_of 900000002 2 None] 7 = T_increasing \<and>
   detectTrend 1000000000 [session_of 900000000 2 None, session_of 900000001 1 None, session_of 900000002 1 None] 7 = T_decreasing \<and>
   detectTrend 1000000000 [session_of 900000000 1 None, session_of 900000001 1 None, session_of 900000002 1 None] 7 = T_stable"
  using detectTrend_compares_halves
          [of 1000000000 "[session_of 900000000 1 None, session_of 950000000 9 None]"]
        detectTrend_compares_halves [of 1000000000 "[session_of 900000000 1 None, session_of 900000001 1 None, session_of 900000002 2 None]"]
        detectTrend_compares_halves [of 1000000000 "[session_of 900000000 2 None, session_of 900000001 1 None, session_of 900000002 1 None]"]
        detectTrend_compares_halves [of 1000000000 "[session_of 900000000 1 None, session_of 900000001 1 None, session_of 900000002 1 None]"]
  by (simp add: Let_def session_of_def computed_mean_def reduce_sum_d_def dgt_def dlt_def
        trend_arith)

text \<open>
  C5 as stated, with the exact averages, fails: for the recent variabilities 44, 8, 48, 3,
  46, 36 the exact relative change is -15%, which is not below -15%, but the rounded change
  is below the double -0.15 and the trend is decreasing.
\<close>

theorem detectTrend_exact_change_counterexample:
  "(spec_average [3, 46, 36] - spec_average [44, 8, 48]) / spec_average [44, 8, 48] = - 0.15 \<and>
   detectTrend 1000000000 [session_of 900000000 44 None, session_of 900000001 8 None, session_of 900000002 48 None, session_of 900000003 3 None, session_of 900000004 46 None, session_of 900000005 36 None] 7 = T_decreasing"
  by (simp add: spec_average_def detectTrend_def Let_def session_of_def slice_def slice_from_def
        relative_index_def reduce_sum_d_def dgt_def dlt_def
        trend_arith)

section \<open>The analysis report\<close>

lemma generateTrendAnalysis_stale:
  assumes "sessions \<noteq> []"
    and "filter (\<lambda>s. now - 7 * 24 * 60 * 60 * 1000 \<le> timestamp s) sessions = []"
  shows "generateTrendAnalysis big now sessions = Inl TypeError"
  using assms by (simp add: generateTrendAnalysis_def Let_def)

text \<open>
  C1. For every non-empty history \<open>generateTrendAnalysis\<close> should return a report. It does
  not when no session lies within the last seven days: for a history of one session,
  three years old, the read of \<open>latest.stats\<close> throws.
\<close>

theorem generateTrendAnalysis_fault_on_stale_history:
  "generateTrendAnalysis big 1700000000000 [session_of 1600000000000 10 None] = Inl TypeError"
  by (simp add: generateTrendAnalysis_def session_of_def Let_def)

section \<open>The stability score\<close>


lemma sort_key_nonempty: "xs \<noteq> [] \<Longrightarrow> \<exists>y ys. sort_key f xs = y # ys"
  by (metis length_0_conv length_sort list.exhaust)

lemma generateTrendAnalysis_recent:
  assumes "sort_key (\<lambda>s. - timestamp s)
             (filter (\<lambda>s. now - 7 * 24 * 60 * 60 * 1000 \<le> timestamp s) sessions) = latest # rest"
  shows "\<exists>r. generateTrendAnalysis big now sessions = Inr r \<and>
             stabilityScore r =
               dround (dmax (Finite 0) (dmin (Finite 100)
                 (fsub (Finite 100)
                    (fmul (fsub (fdiv (dbl (variability (stats latest)))
                                      (js_or (to_double (calculateBaseline sessions)) (Finite 1)))
                                (Finite 1))
                          (Finite 50))))) \<and>
             classification r =
               classifyStability (dbl (variability (stats latest)))
                 (to_double (calculateBaseline sessions)) (detectTrend now sessions 7) \<and>
             correlations r = caffeine_correlation big sessions @ stress_correlation big sessions"
proof -
  have "sessions \<noteq> []" using assms by auto
  then show ?thesis
    unfolding generateTrendAnalysis_def Let_def
    by (simp only: assms list.case length_0_conv if_False) simp
qed




































section \<open>Correlations\<close>

lemma digit_char_index: "d < 10 \<Longrightarrow> ''0123456789'' ! d = digit_char d"
proof -
  assume "d < 10"
  then have "d \<in> {0, 1, 2, 3, 4, 5, 6, 7, 8, 9}" by auto
  then show ?thesis by (auto simp: digit_char_def)
qed

lemma digits_decimal: "digits n = decimal n"
proof (induction n rule: digits.induct)
  case (1 n)
  show ?case
  proof (cases "n < 10")
    case True
    then show ?thesis by (simp add: digits.simps [of n] decimal.simps [of n] digit_char_index)
  next
    case False
    then show ?thesis
      using 1 by (simp add: digits.simps [of n] decimal.simps [of n] digit_char_index)
  qed
qed

lemma toFixed0_percentage:
  "spec_percentage p = Some t \<Longrightarrow> toFixed0 big p = t"
  by (cases p) (auto simp: digits_decimal round_def split: if_splits)

lemma flagged_has_flag: "flagged flag s = has_flag flag s"
  by (cases "session_context s") (simp_all add: flagged_def has_flag_def)

lemma caffeine_correlation_entry:
  "spec_entry ''Caffeine'' ''Sessions with caffeine show ''
     (filter (has_flag caffeine) sessions) (filter (\<lambda>s. \<not> has_flag caffeine s) sessions)
     (caffeine_correlation big sessions)"
  by (auto simp: spec_entry_def caffeine_correlation_def Let_def flagged_has_flag
        relative_difference_def group_average_def computed_mean_def toFixed0_percentage
        split: option.splits)

lemma stress_correlation_entry:
  "spec_entry ''Stress'' ''Sessions marked as stressful show ''
     (filter (has_flag stress) sessions) (filter (\<lambda>s. \<not> has_flag stress s) sessions)
     (stress_correlation big sessions)"
  by (auto simp: spec_entry_def stress_correlation_def Let_def flagged_has_flag
        relative_difference_def group_average_def computed_mean_def toFixed0_percentage
        split: option.splits)

lemma higher_average_of_groups:
  assumes "\<forall>s \<in> set sessions. 0 \<le> variability (stats s)"
  shows "higher_average (filter P sessions) (filter Q sessions)"
proof -
  have "not_negative (group_average (filter R sessions)) \<or> group_average (filter R sessions) = NotANumber" for R
    unfolding group_average_def using assms by (intro computed_mean_not_negative) simp
  then show ?thesis
    unfolding higher_average_def relative_difference_def Let_def
    using relative_sign by blast
qed

lemma generateTrendAnalysis_correlations:
  assumes "sessions = [] \<or> filter (\<lambda>s. now - 7 * 24 * 60 * 60 * 1000 \<le> timestamp s) sessions \<noteq> []"
  shows "\<exists>r. generateTrendAnalysis big now sessions = Inr r \<and>
             correlations r = caffeine_correlation big sessions @ stress_correlation big sessions"
proof (cases "sessions = []")
  case True
  then show ?thesis
    by (simp add: generateTrendAnalysis_def caffeine_correlation_def stress_correlation_def)
next
  case False
  then have recent: "filter (\<lambda>s. now - 7 * 24 * 60 * 60 * 1000 \<le> timestamp s) sessions \<noteq> []"
    using assms by simp
  obtain latest rest where
    "sort_key (\<lambda>s. - timestamp s) (filter (\<lambda>s. now - 7 * 24 * 60 * 60 * 1000 \<le> timestamp s) sessions) = latest # rest"
    using sort_key_nonempty [OF recent, of "\<lambda>s. - timestamp s"] by auto
  then show ?thesis
    using generateTrendAnalysis_recent [of now sessions latest rest big] by blast
qed

lemma single_entry:
  assumes "length es = 1" "context' (hd es) = c" "impact (hd es) = i" "description (hd es) = d"
  shows "es = [\<lparr> context' = c, impact = i, description = d \<rparr>]"
proof -
  obtain e where e: "es = [e]" using assms(1) by (cases es) auto
  then show ?thesis using assms(2-4) by (cases e) simp
qed

text \<open>The arithmetic of the averages and percentages of the sample histories.\<close>

lemma percent_1: "dbl 15 = Finite 15"
  by (simp add: dbl_def, rule rnd_normal [where e = "3" and n = "8444249301319680"]) (simp_all add: pow2_def round_even_def)

lemma percent_2: "fadd (Finite 0) (Finite 15) = Finite 15"
  by (simp add: fadd_finite, rule rnd_normal [where e = "3" and n = "8444249301319680"]) (simp_all add: pow2_def round_even_def)

lemma percent_3: "fadd (Finite 15) (Finite 15) = Finite 30"
  by (simp add: fadd_finite, rule rnd_normal [where e = "4" and n = "8444249301319680"]) (simp_all add: pow2_def round_even_def)

lemma percent_4: "fadd (Finite 30) (Finite 15) = Finite 45"
  by (simp add: fadd_finite, rule rnd_normal [where e = "5" and n = "6333186975989760"]) (simp_all add: pow2_def round_even_def)

lemma percent_5: "fadd (Finite 45) (Finite 15) = Finite 60"
  by (simp add: fadd_finite, rule rnd_normal [where e = "5" and n = "8444249301319680"]) (simp_all add: pow2_def round_even_def)

lemma percent_6: "fadd (Finite 60) (Finite 15) = Finite 75"
  by (simp add: fadd_finite, rule rnd_normal [where e = "6" and n = "5277655813324800"]) (simp_all add: pow2_def round_even_def)

lemma percent_7: "fdiv (Finite 75) (Finite 5) = Finite 15"
  by (simp add: fdiv_finite, rule rnd_normal [where e = "3" and n = "8444249301319680"]) (simp_all add: pow2_def round_even_def)

lemma percent_8: "dbl 10 = Finite 10"
  by (simp add: dbl_def, rule rnd_normal [where e = "3" and n = "5629499534213120"]) (simp_all add: pow2_def round_even_def)

lemma percent_9: "fadd (Finite 0) (Finite 10) = Finite 10"
  by (simp add: fadd_finite, rule rnd_normal [where e = "3" and n = "5629499534213120"]) (simp_all add: pow2_def round_even_def)

lemma percent_10: "fadd (Finite 10) (Finite 10) = Finite 20"
  by (simp add: fadd_finite, rule rnd_normal [where e = "4" and n = "5629499534213120"]) (simp_all add: pow2_def round_even_def)

lemma percent_11: "fadd (Finite 20) (Finite 10) = Finite 30"
  by (simp add: fadd_finite, rule rnd_normal [where e = "4" and n = "8444249301319680"]) (simp_all add: pow2_def round_even_def)

lemma percent_12: "fadd (Finite 30) (Finite 10) = Finite 40"
  by (simp add: fadd_finite, rule rnd_normal [where e = "5" and n = "5629499534213120"]) (simp_all add: pow2_def round_even_def)

lemma percent_13: "fadd (Finite 40) (Finite 10) = Finite 50"
  by (simp add: fadd_finite, rule rnd_normal [where e = "5" and n = "7036874417766400"]) (simp_all add: pow2_def round_even_def)

lemma percent_14: "fdiv (Finite 50) (Finite 5) = Finite 10"
  by (simp add: fdiv_finite, rule rnd_normal [where e = "3" and n = "5629499534213120"]) (simp_all add: pow2_def round_even_def)

lemma percent_15: "fsub (Finite 15) (Finite 10) = Finite 5"
  by (simp add: fsub_finite, rule rnd_normal [where e = "2" and n = "5629499534213120"]) (simp_all add: pow2_def round_even_def)

lemma percent_16: "fdiv (Finite 5) (Finite 10) = Finite (1 / 2)"
  by (simp add: fdiv_finite, rule rnd_normal [where e = "- 1" and n = "4503599627370496"]) (simp_all add: pow2_def round_even_def)

lemma percent_17: "dbl (1 / 10) = Finite (3602879701896397 / 36028797018963968)"
  by (simp add: dbl_def, rule rnd_normal [where e = "- 4" and n = "7205759403792794"]) (simp_all add: pow2_def round_even_def)

lemma percent_18: "fmul (Finite (1 / 2)) (Finite 100) = Finite 50"
  by (simp add: fmul_finite, rule rnd_normal [where e = "5" and n = "7036874417766400"]) (simp_all add: pow2_def round_even_def)

lemma percent_19: "dbl 3 = Finite 3"
  by (simp add: dbl_def, rule rnd_normal [where e = "1" and n = "6755399441055744"]) (simp_all add: pow2_def round_even_def)

lemma percent_20: "fadd (Finite 0) (Finite 3) = Finite 3"
  by (simp add: fadd_finite, rule rnd_normal [where e = "1" and n = "6755399441055744"]) (simp_all add: pow2_def round_even_def)

lemma percent_21: "fadd (Finite 3) (Finite 3) = Finite 6"
  by (simp add: fadd_finite, rule rnd_normal [where e = "2" and n = "6755399441055744"]) (simp_all add: pow2_def round_even_def)

lemma percent_22: "fadd (Finite 6) (Finite 3) = Finite 9"
  by (simp add: fadd_finite, rule rnd_normal [where e = "3" and n = "5066549580791808"]) (simp_all add: pow2_def round_even_def)

lemma percent_23: "fdiv (Finite 9) (Finite 3) = Finite 3"
  by (simp add: fdiv_finite, rule rnd_normal [where e = "1" and n = "6755399441055744"]) (simp_all add: pow2_def round_even_def)

lemma percent_24: "dbl 4 = Finite 4"
  by (simp add: dbl_def, rule rnd_normal [where e = "2" and n = "4503599627370496"]) (simp_all add: pow2_def round_even_def)

lemma percent_25: "fadd (Finite 6) (Finite 4) = Finite 10"
  by (simp add: fadd_finite, rule rnd_normal [where e = "3" and n = "5629499534213120"]) (simp_all add: pow2_def round_even_def)

lemma percent_26: "fdiv (Finite 10) (Finite 3) = Finite (7505999378950827 / 2251799813685248)"
  by (simp add: fdiv_finite, rule rnd_normal [where e = "1" and n = "7505999378950827"]) (simp_all add: pow2_def round_even_def)

lemma percent_27: "fsub (Finite 3) (Finite (7505999378950827 / 2251799813685248)) = Finite (- (750599937895083 / 2251799813685248))"
  by (simp add: fsub_finite, rule rnd_normal [where e = "- 2" and n = "- 6004799503160664"]) (simp_all add: pow2_def round_even_def)

lemma percent_28: "fdiv (Finite (- (750599937895083 / 2251799813685248))) (Finite (7505999378950827 / 2251799813685248)) = Finite (- (1801439850948199 / 18014398509481984))"
  by (simp add: fdiv_finite, rule rnd_normal [where e = "- 4" and n = "- 7205759403792796"]) (simp_all add: pow2_def round_even_def)

lemma percent_29: "fmul (Finite (- (1801439850948199 / 18014398509481984))) (Finite 100) = Finite (- (2814749767106561 / 281474976710656))"
  by (simp add: fmul_finite, rule rnd_normal [where e = "3" and n = "- 5629499534213122"]) (simp_all add: pow2_def round_even_def)

lemma percent_30: "dbl 229 = Finite 229"
  by (simp add: dbl_def, rule rnd_normal [where e = "7" and n = "8057221208342528"]) (simp_all add: pow2_def round_even_def)

lemma percent_31: "fadd (Finite 0) (Finite 229) = Finite 229"
  by (simp add: fadd_finite, rule rnd_normal [where e = "7" and n = "8057221208342528"]) (simp_all add: pow2_def round_even_def)

lemma percent_32: "fadd (Finite 229) (Finite 229) = Finite 458"
  by (simp add: fadd_finite, rule rnd_normal [where e = "8" and n = "8057221208342528"]) (simp_all add: pow2_def round_even_def)

lemma percent_33: "fadd (Finite 458) (Finite 229) = Finite 687"
  by (simp add: fadd_finite, rule rnd_normal [where e = "9" and n = "6042915906256896"]) (simp_all add: pow2_def round_even_def)

lemma percent_34: "fdiv (Finite 687) (Finite 3) = Finite 229"
  by (simp add: fdiv_finite, rule rnd_normal [where e = "7" and n = "8057221208342528"]) (simp_all add: pow2_def round_even_def)

lemma percent_35: "dbl 200 = Finite 200"
  by (simp add: dbl_def, rule rnd_normal [where e = "7" and n = "7036874417766400"]) (simp_all add: pow2_def round_even_def)

lemma percent_36: "fadd (Finite 0) (Finite 200) = Finite 200"
  by (simp add: fadd_finite, rule rnd_normal [where e = "7" and n = "7036874417766400"]) (simp_all add: pow2_def round_even_def)

lemma percent_37: "fadd (Finite 200) (Finite 200) = Finite 400"
  by (simp add: fadd_finite, rule rnd_normal [where e = "8" and n = "7036874417766400"]) (simp_all add: pow2_def round_even_def)

lemma percent_38: "fadd (Finite 400) (Finite 200) = Finite 600"
  by (simp add: fadd_finite, rule rnd_normal [where e = "9" and n = "5277655813324800"]) (simp_all add: pow2_def round_even_def)

lemma percent_39: "fdiv (Finite 600) (Finite 3) = Finite 200"
  by (simp add: fdiv_finite, rule rnd_normal [where e = "7" and n = "7036874417766400"]) (simp_all add: pow2_def round_even_def)

lemma percent_40: "fsub (Finite 229) (Finite 200) = Finite 29"
  by (simp add: fsub_finite, rule rnd_normal [where e = "4" and n = "8162774324609024"]) (simp_all add: pow2_def round_even_def)

lemma percent_41: "fdiv (Finite 29) (Finite 200) = Finite (5224175567749775 / 36028797018963968)"
  by (simp add: fdiv_finite, rule rnd_normal [where e = "- 3" and n = "5224175567749775"]) (simp_all add: pow2_def round_even_def)

lemma percent_42: "fmul (Finite (5224175567749775 / 36028797018963968)) (Finite 100) = Finite (8162774324609023 / 562949953421312)"
  by (simp add: fmul_finite, rule rnd_normal [where e = "3" and n = "8162774324609023"]) (simp_all add: pow2_def round_even_def)

lemma percent_43: "dbl 5 = Finite 5"
  by (simp add: dbl_def, rule rnd_normal [where e = "2" and n = "5629499534213120"]) (simp_all add: pow2_def round_even_def)

lemma percent_44: "fadd (Finite 0) (Finite 5) = Finite 5"
  by (simp add: fadd_finite, rule rnd_normal [where e = "2" and n = "5629499534213120"]) (simp_all add: pow2_def round_even_def)

lemma percent_45: "fadd (Finite 5) (Finite 5) = Finite 10"
  by (simp add: fadd_finite, rule rnd_normal [where e = "3" and n = "5629499534213120"]) (simp_all add: pow2_def round_even_def)

lemma percent_46: "fadd (Finite 10) (Finite 5) = Finite 15"
  by (simp add: fadd_finite, rule rnd_normal [where e = "3" and n = "8444249301319680"]) (simp_all add: pow2_def round_even_def)

lemma percent_47: "fdiv (Finite 15) (Finite 3) = Finite 5"
  by (simp add: fdiv_finite, rule rnd_normal [where e = "2" and n = "5629499534213120"]) (simp_all add: pow2_def round_even_def)

lemma percent_48: "dbl 0 = Finite 0"
  by (simp add: dbl_def rnd_zero)

lemma percent_49: "fadd (Finite 0) (Finite 0) = Finite 0"
  by (simp add: fadd_finite rnd_zero)

lemma percent_50: "fdiv (Finite 0) (Finite 3) = Finite 0"
  by (simp add: fdiv_def is_zero_def is_inf_def signed_zero_def signed_inf_def)

lemma percent_51: "fsub (Finite 5) (Finite 0) = Finite 5"
  by (simp add: fsub_finite, rule rnd_normal [where e = "2" and n = "5629499534213120"]) (simp_all add: pow2_def round_even_def)

lemmas percent_arith =
  percent_1 percent_2 percent_3 percent_4 percent_5 percent_6 percent_7 percent_8
  percent_9 percent_10 percent_11 percent_12 percent_13 percent_14 percent_15 percent_16
  percent_17 percent_18 percent_19 percent_20 percent_21 percent_22 percent_23 percent_24
  percent_25 percent_26 percent_27 percent_28 percent_29 percent_30 percent_31 percent_32
  percent_33 percent_34 percent_35 percent_36 percent_37 percent_38 percent_39 percent_40
  percent_41 percent_42 percent_43 percent_44 percent_45 percent_46 percent_47 percent_48
  percent_49 percent_50 percent_51

lemma caffeine_history_entries:
  assumes "spec_entry ''Caffeine'' ''Sessions with caffeine show ''
             (filter (has_flag caffeine) caffeine_history) (filter (\<lambda>s. \<not> has_flag caffeine s) caffeine_history) cs"
    and "spec_entry ''Stress'' ''Sessions marked as stressful show ''
             (filter (has_flag stress) caffeine_history) (filter (\<lambda>s. \<not> has_flag stress s) caffeine_history) ss"
  shows "cs @ ss = [\<lparr> context' = ''Caffeine'', impact = Negative,
                      description = ''Sessions with caffeine show 50% higher variability.'' \<rparr>]"
proof -
  have "ss = []"
    using assms(2) by (simp add: caffeine_history_def spec_entry_def has_flag_def with_flags_def session_of_def)
  moreover have "cs = [\<lparr> context' = ''Caffeine'', impact = Negative,
                      description = ''Sessions with caffeine show 50% higher variability.'' \<rparr>]"
    using assms(1)
    by (intro single_entry)
       (simp_all add: caffeine_history_def spec_entry_def relative_difference_def group_average_def computed_mean_def has_flag_def with_flags_def session_of_def reduce_sum_d_def Let_def dgt_def dlt_def decimal.simps digit_char_def percent_arith)
  ultimately show ?thesis by simp
qed

text \<open>
  C7, as amended. For a non-empty history with no session in the last seven days
  \<open>generateTrendAnalysis\<close> throws and emits nothing. For every other history it returns a
  report whose correlations are the entries of the caffeine flag followed by those of the
  stress flag, and a flag has an entry if and only if both its groups hold more than two
  sessions and the absolute relative difference of their average variabilities, computed in
  binary64, exceeds the double \<open>0.1\<close>; the impact is negative when the relative difference is
  positive and positive otherwise, and the description cites the computed percentage
  rounded to an integer, with \<open>higher\<close> or \<open>lower\<close>. When no variability is negative, the
  relative difference of an entry is positive exactly when the flagged group's average is
  the higher one.
\<close>

theorem correlations_by_flag:
  "(if sessions \<noteq> [] \<and> filter (\<lambda>s. now - 7 * 24 * 60 * 60 * 1000 \<le> timestamp s) sessions = []
    then generateTrendAnalysis big now sessions = Inl TypeError
    else \<exists>r. generateTrendAnalysis big now sessions = Inr r \<and>
           (\<exists>cs ss. correlations r = cs @ ss \<and>
              spec_entry ''Caffeine'' ''Sessions with caffeine show ''
                (filter (has_flag caffeine) sessions) (filter (\<lambda>s. \<not> has_flag caffeine s) sessions) cs \<and>
              spec_entry ''Stress'' ''Sessions marked as stressful show ''
                (filter (has_flag stress) sessions) (filter (\<lambda>s. \<not> has_flag stress s) sessions) ss)) \<and>
   ((\<forall>s \<in> set sessions. 0 \<le> variability (stats s)) \<longrightarrow>
      higher_average (filter (has_flag caffeine) sessions) (filter (\<lambda>s. \<not> has_flag caffeine s) sessions) \<and>
      higher_average (filter (has_flag stress) sessions) (filter (\<lambda>s. \<not> has_flag stress s) sessions))"
proof -
  have "generateTrendAnalysis big now sessions = Inl TypeError"
    if "sessions \<noteq> []" "filter (\<lambda>s. now - 7 * 24 * 60 * 60 * 1000 \<le> timestamp s) sessions = []"
    using that by (rule generateTrendAnalysis_stale)
  moreover have "\<exists>r. generateTrendAnalysis big now sessions = Inr r \<and>
           (\<exists>cs ss. correlations r = cs @ ss \<and>
              spec_entry ''Caffeine'' ''Sessions with caffeine show ''
                (filter (has_flag caffeine) sessions) (filter (\<lambda>s. \<not> has_flag caffeine s) sessions) cs \<and>
              spec_entry ''Stress'' ''Sessions marked as stressful show ''
                (filter (has_flag stress) sessions) (filter (\<lambda>s. \<not> has_flag stress s) sessions) ss)"
    if "sessions = [] \<or> filter (\<lambda>s. now - 7 * 24 * 60 * 60 * 1000 \<le> timestamp s) sessions \<noteq> []"
    using generateTrendAnalysis_correlations [OF that, of big]
      caffeine_correlation_entry [of sessions big] stress_correlation_entry [of sessions big]
    by blast
  ultimately show ?thesis
    using higher_average_of_groups [of sessions] by auto
qed

lemma caffeine_history_difference:
  "relative_difference (filter (has_flag caffeine) caffeine_history)
     (filter (\<lambda>s. \<not> has_flag caffeine s) caffeine_history) = Finite (1 / 2)"
  by (simp add: caffeine_history_def relative_difference_def group_average_def computed_mean_def
        has_flag_def with_flags_def session_of_def reduce_sum_d_def percent_arith)

theorem correlations_by_flag_witness:
  "list_all (\<lambda>s. 0 \<le> variability (stats s)) caffeine_history \<and>
   (\<exists>r. generateTrendAnalysis (\<lambda>v. []) 1000000000 caffeine_history = Inr r \<and>
        correlations r =
          [\<lparr> context' = ''Caffeine'', impact = Negative,
             description = ''Sessions with caffeine show 50% higher variability.'' \<rparr>]) \<and>
   dgt (relative_difference (filter (has_flag caffeine) caffeine_history)
          (filter (\<lambda>s. \<not> has_flag caffeine s) caffeine_history)) (Finite 0) \<and>
   dgt (group_average (filter (has_flag caffeine) caffeine_history))
       (group_average (filter (\<lambda>s. \<not> has_flag caffeine s) caffeine_history)) \<and>
   generateTrendAnalysis (\<lambda>v. []) 1700000000000 [session_of 1600000000000 10 None] = Inl TypeError"
proof -
  have data: "\<forall>s \<in> set caffeine_history. 0 \<le> variability (stats s)"
    by (simp add: caffeine_history_def session_of_def)
  have recent: "\<not> (caffeine_history \<noteq> [] \<and>
      filter (\<lambda>s. 1000000000 - 7 * 24 * 60 * 60 * 1000 \<le> timestamp s) caffeine_history = [])"
    by (simp add: caffeine_history_def session_of_def)
  have stale: "[session_of 1600000000000 10 None] \<noteq> [] \<and>
      filter (\<lambda>s. 1700000000000 - 7 * 24 * 60 * 60 * 1000 \<le> timestamp s)
        [session_of 1600000000000 10 None] = []"
    by (simp add: session_of_def)
  have report: "\<exists>r. generateTrendAnalysis (\<lambda>v. []) 1000000000 caffeine_history = Inr r \<and>
        correlations r =
          [\<lparr> context' = ''Caffeine'', impact = Negative,
             description = ''Sessions with caffeine show 50% higher variability.'' \<rparr>]"
    using correlations_by_flag [of caffeine_history 1000000000 "\<lambda>v. []"] recent
      caffeine_history_entries
    by (simp only: if_False) metis
  have "higher_average (filter (has_flag caffeine) caffeine_history)
          (filter (\<lambda>s. \<not> has_flag caffeine s) caffeine_history)"
    using correlations_by_flag [of caffeine_history 1000000000 "\<lambda>v. []"] data by blast
  moreover have tenth: "dbl (1 / 10) = Finite (3602879701896397 / 36028797018963968)"
    by (simp add: percent_arith)
  ultimately have higher: "dgt (relative_difference (filter (has_flag caffeine) caffeine_history)
          (filter (\<lambda>s. \<not> has_flag caffeine s) caffeine_history)) (Finite 0) \<and>
      dgt (group_average (filter (has_flag caffeine) caffeine_history))
          (group_average (filter (\<lambda>s. \<not> has_flag caffeine s) caffeine_history))"
    by (simp add: higher_average_def caffeine_history_difference dgt_def dlt_def)
  have fault: "generateTrendAnalysis (\<lambda>v. []) 1700000000000 [session_of 1600000000000 10 None] = Inl TypeError"
    using correlations_by_flag [of "[session_of 1600000000000 10 None]" 1700000000000 "\<lambda>v. []"] stale
    by simp
  show ?thesis
    using data report higher fault by (simp add: list_all_iff)
qed

text \<open>
  C7 as stated, with exact arithmetic, fails: with three caffeine sessions of variability
  3 against three others of variabilities 3, 3 and 4 the relative difference of the
  averages is exactly 10%, which does not exceed 10%, but the computed one is
  \<open>-0.10000000000000003\<close> and an entry is emitted.
\<close>

theorem correlations_exact_difference_counterexample:
  "\<not> 0.1 < \<bar>(spec_average [3, 3, 3] - spec_average [3, 3, 4]) / spec_average [3, 3, 4]\<bar> \<and>
   (\<exists>r. generateTrendAnalysis (\<lambda>v. []) 1000000000 threshold_history = Inr r \<and>
        correlations r =
          [\<lparr> context' = ''Caffeine'', impact = Positive,
             description = ''Sessions with caffeine show 10% lower variability.'' \<rparr>])"
proof -
  have "filter (\<lambda>s. 1000000000 - 7 * 24 * 60 * 60 * 1000 \<le> timestamp s) threshold_history \<noteq> []"
    by (simp add: threshold_history_def session_of_def)
  then obtain r where "generateTrendAnalysis (\<lambda>v. []) 1000000000 threshold_history = Inr r"
    and "correlations r = caffeine_correlation (\<lambda>v. []) threshold_history
                          @ stress_correlation (\<lambda>v. []) threshold_history"
    using generateTrendAnalysis_correlations [of threshold_history 1000000000 "\<lambda>v. []"] by auto
  moreover have "caffeine_correlation (\<lambda>v. []) threshold_history
                 @ stress_correlation (\<lambda>v. []) threshold_history =
          [\<lparr> context' = ''Caffeine'', impact = Positive,
             description = ''Sessions with caffeine show 10% lower variability.'' \<rparr>]"
    by (simp add: threshold_history_def caffeine_correlation_def stress_correlation_def flagged_def with_flags_def session_of_def reduce_sum_d_def Let_def dgt_def dlt_def digits.simps percent_arith)
  moreover have "\<not> 0.1 < \<bar>(spec_average [3, 3, 3] - spec_average [3, 3, 4]) / spec_average [3, 3, 4]\<bar>"
    by (simp add: spec_average_def)
  ultimately show ?thesis by simp
qed

text \<open>
  The cited percentage is the computed one: 229 against 200 is 14.5% exactly and
  \<open>14.499999999999998\<close> as computed, cited as 14%. Over an average of zero the relative
  difference is infinite, and is cited as such.
\<close>

lemma correlations_percentage_rounded:
  "caffeine_correlation (\<lambda>v. []) stress_history @ stress_correlation (\<lambda>v. []) stress_history =
     [\<lparr> context' = ''Stress'', impact = Negative,
        description = ''Sessions marked as stressful show 14% higher variability.'' \<rparr>]"
  by (simp add: stress_history_def caffeine_correlation_def stress_correlation_def flagged_def with_flags_def session_of_def reduce_sum_d_def Let_def dgt_def dlt_def digits.simps percent_arith)

lemma over_zero: "fdiv (Finite 5) (Finite 0) = PlusInfinity"
  by (simp add: fdiv_def is_zero_def is_inf_def signed_inf_def)

lemma infinite_percentage: "fmul PlusInfinity (Finite 100) = PlusInfinity"
  by (simp add: fmul_def is_zero_def is_inf_def signed_inf_def)

lemma correlations_over_zero_average:
  "caffeine_correlation (\<lambda>v. []) still_history @ stress_correlation (\<lambda>v. []) still_history =
     [\<lparr> context' = ''Caffeine'', impact = Negative,
        description = ''Sessions with caffeine show Infinity% higher variability.'' \<rparr>]"
  by (simp add: still_history_def caffeine_correlation_def stress_correlation_def flagged_def with_flags_def session_of_def reduce_sum_d_def Let_def dgt_def dlt_def digits.simps percent_arith over_zero infinite_percentage)

section \<open>Loading the settings\<close>

lemma or_null_idem: "or_null (or_null v) = or_null v"
  by (simp add: or_null_def split: option.splits)

lemma fold_assign:
  "fold (\<lambda>(k, v) obj. obj(k \<mapsto> v)) kvs m field =
     (case map_of (rev kvs) field of Some x \<Rightarrow> Some x | None \<Rightarrow> m field)"
  by (induction kvs arbitrary: m) (auto simp: map_add_def split: option.splits)

lemma spread_fields:
  "spread target source =
     (\<lambda>field. case stored_field source field of Some x \<Rightarrow> Some x | None \<Rightarrow> target field)"
  by (rule ext) (simp add: spread_def fold_assign stored_field_def)

text \<open>
  C3, as amended. \<open>loadSettings\<close> returns the defaults (sampling rate medium, duration 10,
  theme dark) when nothing is stored or the stored text does not parse. Otherwise every
  field of the result is the stored value when the field is present in the stored value,
  whatever that value is, and the default when the field is missing.
\<close>

theorem loadSettings_merges_stored_over_defaults:
  "fst (loadSettings getItem parse st) =
     (case stored_text getItem st of
        None \<Rightarrow> DEFAULT_SETTINGS
      | Some text \<Rightarrow>
          (case parse text of
             None \<Rightarrow> DEFAULT_SETTINGS
           | Some settings \<Rightarrow>
               (\<lambda>field. case stored_field settings field of
                           Some v \<Rightarrow> Some v
                         | None \<Rightarrow> DEFAULT_SETTINGS field)))"
  by (auto simp: loadSettings_def stored_text_def spread_fields or_null_idem Let_def
           split: sum.splits option.splits)

text \<open>
  C3 as stated fails: a stored theme that the settings type does not admit is returned as
  it is, not replaced by the default.
\<close>

theorem loadSettings_unrecognized_counterexample:
  "\<not> recognized ''theme'' (JString ''neon'') \<and>
   DEFAULT_SETTINGS ''theme'' = Some (JString ''dark'') \<and>
   fst (loadSettings (store_holding neon_text) neon_parse fresh_storage) ''theme''
     = Some (JString ''neon'')"
  by (simp add: recognized_def DEFAULT_SETTINGS_def loadSettings_def store_holding_def
        neon_parse_def neon_text_def fresh_storage_def or_null_def spread_def)

section \<open>Stopping a recording\<close>

lemma stopRecording_failure_reported:
  assumes "readingsRef st \<noteq> []" and "\<forall>session. saveSession session \<noteq> Inr ()"
  shows "fst (stopRecording saveSession now random d c st) = None \<and>
         error_text (snd (stopRecording saveSession now random d c st))
           = Some ''Failed to save session'' \<and>
         readingsRef (snd (stopRecording saveSession now random d c st)) = readingsRef st"
  using assms
  by (auto simp: stopRecording_def getReadings_def Let_def split: sum.splits)

lemma stopRecording_then_commit:
  assumes "rendered_enabled st"
  shows "readingsRef (commit (snd (stopRecording saveSession now random d c st))) = []"
  using assms
  by (auto simp: stopRecording_def getReadings_def clearReadings_def commit_def
        useSensors_effect_def Let_def split: sum.splits)

text \<open>
  C2. When the save fails, \<open>stopRecording\<close> should report the failure, return no session
  and leave the buffer of readings as it is, for a retry. It reports the failure and
  returns \<open>null\<close>, and its own failure path does not touch the buffer; but it has set
  \<open>isRecording\<close> to \<open>false\<close>, and the render that follows runs the effect of \<open>useSensors\<close>,
  which empties the buffer whether the save succeeded or not.
\<close>

theorem stopRecording_failed_save_loses_buffer:
  "fst (stopRecording failing_save 1700000010000 ''k3j9x0q2m'' 10 None recording_in_progress) = None \<and>
   error_text (snd (stopRecording failing_save 1700000010000 ''k3j9x0q2m'' 10 None
                      recording_in_progress)) = Some ''Failed to save session'' \<and>
   readingsRef (snd (stopRecording failing_save 1700000010000 ''k3j9x0q2m'' 10 None
                       recording_in_progress)) = [sample_reading] \<and>
   readingsRef (commit (snd (stopRecording failing_save 1700000010000 ''k3j9x0q2m'' 10 None
                               recording_in_progress))) = []"
  by (simp add: stopRecording_def getReadings_def commit_def useSensors_effect_def
        recording_in_progress_def failing_save_def Let_def)

end
